theory Spec2Isabelle
  imports
    Complex_Main
    "HOL-Library.Multiset"
    "HOL-Library.Sublist"
    "HOL-Library.Char_ord"
    "HOL-Library.List_Lexorder"
    "HOL-Library.Product_Lexorder"
    "HOL-Library.Word"
begin

section \<open>Cafeteria RFID terminal: data model\<close>

text \<open>
  The development embeds the services of the RFID point-of-sale server:
  \<^verbatim>\<open>services/rfidService.js\<close> (reader manager and scan pipeline),
  \<^verbatim>\<open>services/userService.js\<close> (user directory and access check),
  the purchase service, the reservation service, the purchase route
  \<^verbatim>\<open>routes/purchases.js\<close> and the socket handlers of \<^verbatim>\<open>server.js\<close>.

  Conventions of the embedding.
  \<^item> A Mongo \<^verbatim>\<open>ObjectId\<close> is a natural number; a \<^verbatim>\<open>Date\<close> is an integer count of
    milliseconds; \<^verbatim>\<open>new Date()\<close> is a clock reading handed to each operation.
  \<^item> A JavaScript number holding money or a quantity is a real number: rounding of
    IEEE doubles is not part of the model.
  \<^item> A collection is the list of its documents in insertion order.
  \<^item> A required string that is absent and one that is empty are both the empty string:
    Mongoose's \<^verbatim>\<open>required\<close> validator and JavaScript's \<^verbatim>\<open>||\<close> treat the two alike.
  \<^item> Every function takes the world and returns the world it leaves behind, also when
    it throws: a thrown exception is a value, the mutations made before it remain.
  \<^item> A document that is already stored satisfies its schema: saving it again after a
    change of status, block or scan fields can fail in storage only, not in validation.
  \<^item> Case mapping and white space are those of ASCII.
\<close>

type_synonym object_id = nat
type_synonym time = int

datatype reservation_status = Pending | Confirmed | Prepared | Served | Cancelled

datatype meal_type = Breakfast | Lunch | Dinner | Snack

datatype payment_status = PaymentPending | Paid | PaymentCancelled

text \<open>A payment method as a request may carry it; the schema's enum admits the first two.\<close>

datatype payment_method = Cash | MonthlyBilling | OtherMethod string

record block_info =
  reason :: string
  block_notes :: string
  blockedAt :: "time option"
  blockedBy :: "object_id option"
  expiresAt :: "time option"
  autoUnblockProcessed :: bool

record user =
  user_id :: object_id
  uid :: string
  name :: string
  class_or_year :: string
  user_category :: string
  email :: string
  isActive :: bool
  lastScanAt :: "time option"
  scanCount :: int
  isBlocked :: bool
  blockInfo :: block_info

text \<open>
  Modelled from the spec: the Food model (\<^verbatim>\<open>models/Food.js\<close>) is not among the sources.
  The spec gives a food item a name, a price, an availability flag and an activity flag;
  these are the fields the purchase and reservation services read.
\<close>

record food =
  food_id :: object_id
  food_name :: string
  food_price :: real
  isAvailable :: bool
  food_isActive :: bool

record reservation =
  reservation_id :: object_id
  parentId :: object_id
  studentId :: object_id
  foodId :: object_id
  reservationDate :: time
  quantity :: real
  mealType :: meal_type
  status :: reservation_status
  estimatedCost :: real
  actualCost :: "real option"
  servedAt :: "time option"
  servedByStation :: string
  rfidProcessedAt :: "time option"

record purchase_item =
  item_foodId :: object_id
  item_name :: string
  price :: real
  item_quantity :: real
  subtotal :: real

text \<open>
  The notes of a purchase are built by string concatenation with formatted numbers;
  the model keeps the fragments in order instead of rendering them.
\<close>

datatype note_fragment =
    NoteText string
  | CashPaymentNote real
  | ChangeNote real
  | MonthlyBillNote
  | ReservationFulfilledNote meal_type time

record purchase =
  userId :: object_id
  purchase_uid :: string
  userName :: string
  userCategory :: string
  items :: "purchase_item list"
  totalAmount :: real
  purchasedAt :: time
  paymentStatus :: payment_status
  paidAt :: "time option"
  paymentMethod :: payment_method
  cashAmount :: "real option"
  change :: "real option"
  purchase_notes :: "note_fragment list"
  cafeteriaStation :: string
  processedBy :: string

record scan_entry =
  scan_uid :: string
  scan_timestamp :: time
  processed :: bool

datatype scan_outcome =
    Success user "reservation list"
  | UserNotFound
  | AccessDenied string string
  | ProcessingError

text \<open>The broadcasts of \<^verbatim>\<open>io.emit\<close>, in the order they are sent.\<close>

datatype event =
    RfidConnected string time
  | CardScanned string time
  | ScanResult string scan_outcome
  | ScanError
  | PurchaseUpdate purchase
  | ReservationUpdate reservation purchase

text \<open>The storage calls, logged in the order they are issued.\<close>

datatype db_op =
    UserFindOne string
  | UserFindById object_id
  | UserSave object_id
  | UserFindByIdAndUpdate object_id
  | FoodFindById object_id
  | ReservationFind object_id
  | ReservationFindById object_id
  | ReservationSave object_id
  | PurchaseSave

text \<open>
  The world: the four collections, the storage's fault schedule and call log, the fields
  of the RFID service object, the readers that carry the service's card handlers, the
  broadcast log, and the process environment
  (\<^verbatim>\<open>STATION_ID\<close> with its default applied, the configured reader name, the offset of
  local time from UTC in milliseconds).

  \<open>db_faults\<close> decides the fate of the storage calls to come: each call consumes the head
  of the list and fails when it is \<open>True\<close>; an empty list means that storage works.
\<close>

record world =
  users :: "user list"
  foods :: "food list"
  reservations :: "reservation list"
  purchases :: "purchase list"
  db_faults :: "bool list"
  db_log :: "db_op list"
  connected :: bool
  reader :: "string option"
  lastScanTime :: "time option"
  scanHistory :: "scan_entry list"
  mockMode :: bool
  cardHandlers :: "string list"
  emitted :: "event list"
  stationId :: string
  readerName :: string
  tzOffset :: int

datatype js_error =
    TypeError
  | StorageError
  | ValidationError
  | InvalidPurchaseData
  | InvalidPaymentMethod
  | FoodNotFound string
  | FoodNotAvailable string
  | PriceMismatch string
  | TotalAmountMismatch
  | InsufficientCashAmount
  | ReservationNotFound
  | AlreadyServed
  | CannotConfirmCancelled
  | ServedButPurchaseFailed js_error
  | SimulateOnlyInMockMode
  | UidRequired
  | ManualScanOnlyInMockMode

section \<open>Strings\<close>

text \<open>\<^verbatim>\<open>toLowerCase\<close> and \<^verbatim>\<open>toUpperCase\<close> on the ASCII letters.\<close>

definition upper_letters :: string where
  "upper_letters = ''ABCDEFGHIJKLMNOPQRSTUVWXYZ''"

definition lower_letters :: string where
  "lower_letters = ''abcdefghijklmnopqrstuvwxyz''"

definition toLowerCase :: "string \<Rightarrow> string" where
  "toLowerCase s =
     map (\<lambda>c. case map_of (zip upper_letters lower_letters) c of Some d \<Rightarrow> d | None \<Rightarrow> c) s"

definition toUpperCase :: "string \<Rightarrow> string" where
  "toUpperCase s =
     map (\<lambda>c. case map_of (zip lower_letters upper_letters) c of Some d \<Rightarrow> d | None \<Rightarrow> c) s"

text \<open>\<^verbatim>\<open>hay.includes(needle)\<close>: the needle occurs as a contiguous substring.\<close>

fun js_includes :: "string \<Rightarrow> string \<Rightarrow> bool" where
  "js_includes [] needle = (needle = [])"
| "js_includes (c # cs) needle = (prefix needle (c # cs) \<or> js_includes cs needle)"

text \<open>
  The \<^verbatim>\<open>trim\<close> setter of the schemas; Mongoose applies it to the values it stores and
  to the values of a query filter.
\<close>

definition is_space :: "char \<Rightarrow> bool" where
  "is_space c \<longleftrightarrow> c \<in> set [CHR '' '', CHR 0x09, CHR 0x0A, CHR 0x0B, CHR 0x0C, CHR 0x0D]"

definition trim :: "string \<Rightarrow> string" where
  "trim s = rev (dropWhile is_space (rev (dropWhile is_space s)))"

text \<open>\<^verbatim>\<open>Buffer.toString('hex')\<close>: two lower-case hexadecimal digits for each byte.\<close>

definition hex_digit :: "nat \<Rightarrow> char" where
  "hex_digit n = ''0123456789abcdef'' ! (n mod 16)"

definition toHex :: "8 word list \<Rightarrow> string" where
  "toHex bs = concat (map (\<lambda>b. [hex_digit (unat b div 16), hex_digit (unat b mod 16)]) bs)"

section \<open>Reader manager: hardware discovery\<close>

text \<open>
  The test of the \<^verbatim>\<open>'reader'\<close> handler of \<^verbatim>\<open>initializeNFCReader\<close>: the lower-cased name
  contains \<^verbatim>\<open>acr\<close>, \<^verbatim>\<open>1252\<close> or \<^verbatim>\<open>nfc\<close>.
\<close>

definition is_target_reader :: "string \<Rightarrow> bool" where
  "is_target_reader nm \<longleftrightarrow>
     js_includes (toLowerCase nm) ''acr'' \<or>
     js_includes (toLowerCase nm) ''1252'' \<or>
     js_includes (toLowerCase nm) ''nfc''"

text \<open>
  \<^verbatim>\<open>setupCardHandlers(reader)\<close> attaches the service's handlers for \<^verbatim>\<open>card\<close>, \<^verbatim>\<open>card.off\<close>,
  \<^verbatim>\<open>error\<close> and \<^verbatim>\<open>end\<close> to the reader: from then on the reader is among those whose card
  events the service handles.
\<close>

definition setupCardHandlers :: "world \<Rightarrow> string \<Rightarrow> world" where
  "setupCardHandlers w nm = w\<lparr>cardHandlers := cardHandlers w @ [nm]\<rparr>"

text \<open>
  The \<^verbatim>\<open>'reader'\<close> handler: an accepted reader is stored, the service is connected, the
  connection is broadcast and the card handlers are attached; any other reader leaves
  the world as it is.
\<close>

definition on_reader :: "world \<Rightarrow> string \<Rightarrow> time \<Rightarrow> world" where
  "on_reader w nm now =
     (if is_target_reader nm
      then setupCardHandlers
             (w\<lparr>reader := Some nm, connected := True,
                emitted := emitted w @ [RfidConnected nm now]\<rparr>) nm
      else w)"

text \<open>
  The acceptance rule in the spec's words, for comparison: the advertised name matches
  the configured device family name by case-insensitive substring match.
\<close>

definition spec_matches_configured :: "string \<Rightarrow> string \<Rightarrow> bool" where
  "spec_matches_configured configured nm \<longleftrightarrow>
     js_includes (toLowerCase nm) (toLowerCase configured)"

section \<open>Storage\<close>

text \<open>
  Every storage call is logged and consumes one entry of the fault schedule; the result
  says whether the call went through.
\<close>

definition db_call :: "db_op \<Rightarrow> world \<Rightarrow> bool \<times> world" where
  "db_call op w =
     (case db_faults w of
        [] \<Rightarrow> (True, w\<lparr>db_log := db_log w @ [op]\<rparr>)
      | f # fs \<Rightarrow> (\<not> f, w\<lparr>db_faults := fs, db_log := db_log w @ [op]\<rparr>))"

text \<open>An update addressed by \<^verbatim>\<open>_id\<close> changes the first document that matches.\<close>

fun update_first :: "('a \<Rightarrow> bool) \<Rightarrow> ('a \<Rightarrow> 'a) \<Rightarrow> 'a list \<Rightarrow> 'a list" where
  "update_first P f [] = []"
| "update_first P f (x # xs) = (if P x then f x # xs else x # update_first P f xs)"

section \<open>User directory\<close>

text \<open>
  \<^verbatim>\<open>getUserByUID\<close>: \<^verbatim>\<open>User.findOne({ uid, isActive: true })\<close>; the filter's uid is cast
  through the schema, which trims it. A storage error is caught and answered with
  \<^verbatim>\<open>null\<close>.
\<close>

definition getUserByUID :: "world \<Rightarrow> string \<Rightarrow> user option \<times> world" where
  "getUserByUID w u =
     (let (ok, w1) = db_call (UserFindOne u) w
      in if ok then (find (\<lambda>d. uid d = trim u \<and> isActive d) (users w1), w1)
         else (None, w1))"

text \<open>
  \<^verbatim>\<open>updateLastScan\<close>: find the user by id and let the document stamp the scan time and
  count the scan; \<^verbatim>\<open>false\<close> when there is no such user or storage fails.
\<close>

definition updateLastScan :: "world \<Rightarrow> object_id \<Rightarrow> time \<Rightarrow> bool \<times> world" where
  "updateLastScan w i now =
     (let (ok, w1) = db_call (UserFindById i) w
      in if \<not> ok then (False, w1)
         else (case find (\<lambda>d. user_id d = i) (users w1) of
                 None \<Rightarrow> (False, w1)
               | Some _ \<Rightarrow>
                   (let (ok2, w2) = db_call (UserSave i) w1
                    in if \<not> ok2 then (False, w2)
                       else (True, w2\<lparr>users :=
                               update_first (\<lambda>d. user_id d = i)
                                 (\<lambda>d. d\<lparr>lastScanAt := Some now, scanCount := scanCount d + 1\<rparr>)
                                 (users w2)\<rparr>))))"

datatype access_check = CanAccess | NoAccess string string

definition cleared_block :: block_info where
  "cleared_block =
     \<lparr>reason = [], block_notes = [], blockedAt = None, blockedBy = None,
      expiresAt = None, autoUnblockProcessed = False\<rparr>"

text \<open>
  \<^verbatim>\<open>validateUserAccess\<close>. The user document is the caller's object: the auto-unblock
  changes it in memory before saving, so the function also returns the document.
  A failing save is caught and answered with the system-error denial.
\<close>

definition validateUserAccess ::
  "world \<Rightarrow> user \<Rightarrow> time \<Rightarrow> (access_check \<times> user) \<times> world" where
  "validateUserAccess w u now =
     (if \<not> isActive u
      then ((NoAccess ''Account is inactive''
               ''This account has been deactivated. Please contact administration.'', u), w)
      else if isBlocked u
      then (if (case expiresAt (blockInfo u) of None \<Rightarrow> False | Some e \<Rightarrow> now > e)
            then (let u' = u\<lparr>isBlocked := False, blockInfo := cleared_block\<rparr>;
                      (ok, w1) = db_call (UserSave (user_id u)) w
                  in if ok
                     then ((CanAccess, u'),
                           w1\<lparr>users :=
                                update_first (\<lambda>d. user_id d = user_id u)
                                  (\<lambda>d. d\<lparr>isBlocked := False, blockInfo := cleared_block\<rparr>)
                                  (users w1)\<rparr>)
                     else ((NoAccess ''System error''
                              ''Unable to validate account access. Please try again.'', u'), w1))
            else ((NoAccess ''Account is blocked''
                     (if reason (blockInfo u) = []
                      then ''This account has been temporarily blocked.''
                      else reason (blockInfo u)), u), w))
      else ((CanAccess, u), w))"

section \<open>Reservation workflow: today's reservations\<close>

definition msPerDay :: int where
  "msPerDay = 86400000"

text \<open>
  \<^verbatim>\<open>new Date(today.setHours(0, 0, 0, 0))\<close> and \<^verbatim>\<open>new Date(today.setHours(23, 59, 59, 999))\<close>
  for a local time that is UTC plus a fixed offset.
\<close>

definition startOfDay :: "int \<Rightarrow> time \<Rightarrow> time" where
  "startOfDay tz now = now - (now + tz) mod msPerDay"

definition endOfDay :: "int \<Rightarrow> time \<Rightarrow> time" where
  "endOfDay tz now = startOfDay tz now + (msPerDay - 1)"

text \<open>The stored string of a meal slot; the query sorts on it.\<close>

fun mealType_name :: "meal_type \<Rightarrow> string" where
  "mealType_name Breakfast = ''breakfast''"
| "mealType_name Lunch = ''lunch''"
| "mealType_name Dinner = ''dinner''"
| "mealType_name Snack = ''snack''"

definition today_query :: "int \<Rightarrow> time \<Rightarrow> object_id \<Rightarrow> reservation \<Rightarrow> bool" where
  "today_query tz now i r \<longleftrightarrow>
     studentId r = i \<and>
     startOfDay tz now \<le> reservationDate r \<and> reservationDate r \<le> endOfDay tz now \<and>
     status r \<in> set [Pending, Confirmed, Prepared]"

text \<open>
  \<^verbatim>\<open>getTodayReservations\<close>: the query, sorted by \<^verbatim>\<open>{ mealType: 1, reservationDate: 1 }\<close>;
  an error is caught and answered with the empty list. Populating the references
  neither adds nor drops a reservation and is left out.
\<close>

definition getTodayReservations ::
  "world \<Rightarrow> object_id \<Rightarrow> time \<Rightarrow> reservation list \<times> world" where
  "getTodayReservations w i now =
     (let (ok, w1) = db_call (ReservationFind i) w
      in if ok
         then (sort_key (\<lambda>r. (mealType_name (mealType r), reservationDate r))
                 (filter (today_query (tzOffset w1) now i) (reservations w1)), w1)
         else ([], w1))"

section \<open>Scan pipeline\<close>

text \<open>The \<^verbatim>\<open>uid\<close> argument: a reader hands over a buffer or a string, a socket client anything.\<close>

datatype raw_uid = UidBuffer "8 word list" | UidString string | UidUndefined

text \<open>
  \<^verbatim>\<open>Buffer.isBuffer(uid) ? uid.toString('hex').toUpperCase() : uid.toString().toUpperCase()\<close>;
  \<open>None\<close> when \<^verbatim>\<open>uid.toString\<close> throws a \<^verbatim>\<open>TypeError\<close>.
\<close>

fun normalize_uid :: "raw_uid \<Rightarrow> string option" where
  "normalize_uid (UidBuffer bs) = Some (toUpperCase (toHex bs))"
| "normalize_uid (UidString s) = Some (toUpperCase s)"
| "normalize_uid UidUndefined = None"

text \<open>\<^verbatim>\<open>uid.toString()\<close> as the \<^verbatim>\<open>catch\<close> block evaluates it.\<close>

fun uid_toString :: "raw_uid \<Rightarrow> string option" where
  "uid_toString (UidBuffer bs) = Some (map (\<lambda>b. char_of (unat b)) bs)"
| "uid_toString (UidString s) = Some s"
| "uid_toString UidUndefined = None"

text \<open>
  The \<^verbatim>\<open>catch\<close> block of \<^verbatim>\<open>processCardScan\<close>: it broadcasts the processing error, unless
  building the event throws again.
\<close>

definition scan_catch :: "world \<Rightarrow> raw_uid \<Rightarrow> js_error option \<times> world" where
  "scan_catch w raw =
     (case uid_toString raw of
        None \<Rightarrow> (Some TypeError, w)
      | Some s \<Rightarrow> (None, w\<lparr>emitted := emitted w @ [ScanResult s ProcessingError]\<rparr>))"

text \<open>\<^verbatim>\<open>unshift\<close> the new entry, then keep the first hundred.\<close>

definition add_to_history :: "scan_entry \<Rightarrow> scan_entry list \<Rightarrow> scan_entry list" where
  "add_to_history e h = (if length (e # h) > 100 then take 100 (e # h) else e # h)"

text \<open>
  \<^verbatim>\<open>processCardScan\<close>. The calls into the user directory and the reservation workflow
  catch their own errors, so inside the \<^verbatim>\<open>try\<close> only the normalisation of the uid can
  throw. The result is the exception that leaves the function, if any.
\<close>

definition processCardScan :: "world \<Rightarrow> raw_uid \<Rightarrow> time \<Rightarrow> js_error option \<times> world" where
  "processCardScan w raw now =
     (let w0 = w\<lparr>lastScanTime := Some now\<rparr>
      in case normalize_uid raw of
           None \<Rightarrow> scan_catch w0 raw
         | Some uidString \<Rightarrow>
             (let w1 = w0\<lparr>scanHistory :=
                          add_to_history
                            \<lparr>scan_uid = uidString, scan_timestamp = now, processed = False\<rparr>
                            (scanHistory w0)\<rparr>;
                  w2 = w1\<lparr>emitted := emitted w1 @ [CardScanned uidString now]\<rparr>;
                  (userData, w3) = getUserByUID w2 uidString
              in case userData of
                   None \<Rightarrow>
                     (None, w3\<lparr>emitted := emitted w3 @ [ScanResult uidString UserNotFound]\<rparr>)
                 | Some u \<Rightarrow>
                     (let ((accessCheck, u'), w4) = validateUserAccess w3 u now
                      in case accessCheck of
                           NoAccess r m \<Rightarrow>
                             (None, w4\<lparr>emitted :=
                                      emitted w4 @ [ScanResult uidString (AccessDenied r m)]\<rparr>)
                         | CanAccess \<Rightarrow>
                             (let (rs, w5) = getTodayReservations w4 (user_id u') now;
                                  w6 = w5\<lparr>scanHistory :=
                                         update_first (\<lambda>e. scan_uid e = uidString)
                                           (\<lambda>e. e\<lparr>processed := True\<rparr>) (scanHistory w5)\<rparr>;
                                  w7 = w6\<lparr>emitted :=
                                         emitted w6 @ [ScanResult uidString (Success u' rs)]\<rparr>;
                                  (_, w8) = updateLastScan w7 (user_id u') now
                              in (None, w8)))))"

definition processManualScan ::
  "world \<Rightarrow> raw_uid \<Rightarrow> string \<Rightarrow> time \<Rightarrow> js_error option \<times> world" where
  "processManualScan w raw socketId now = processCardScan w raw now"

definition simulateScan :: "world \<Rightarrow> raw_uid \<Rightarrow> time \<Rightarrow> js_error option \<times> world" where
  "simulateScan w raw now =
     (if \<not> mockMode w then (Some SimulateOnlyInMockMode, w)
      else processCardScan w raw now)"

text \<open>
  The \<^verbatim>\<open>card\<close> handler that \<^verbatim>\<open>setupCardHandlers\<close> attaches: a card on a reader that carries
  the handlers is processed by the pipeline; an exception that leaves the pipeline is
  caught and broadcast as a scan error. The card's ATR and type, which the handler only
  logs, are not modelled.
\<close>

definition on_card :: "world \<Rightarrow> string \<Rightarrow> raw_uid \<Rightarrow> time \<Rightarrow> world" where
  "on_card w nm raw now =
     (if nm \<in> set (cardHandlers w)
      then (case processCardScan w raw now of
              (None, w1) \<Rightarrow> w1
            | (Some e, w1) \<Rightarrow> w1\<lparr>emitted := emitted w1 @ [ScanError]\<rparr>)
      else w)"

text \<open>
  The \<^verbatim>\<open>manualScan\<close> command of the real-time channel in \<^verbatim>\<open>server.js\<close>: \<^verbatim>\<open>data.uid\<close> goes to
  \<^verbatim>\<open>processManualScan\<close> as it is; an exception is reported to the sending socket alone,
  so the broadcast log is the pipeline's.
\<close>

definition socket_manualScan ::
  "world \<Rightarrow> raw_uid \<Rightarrow> string \<Rightarrow> time \<Rightarrow> js_error option \<times> world" where
  "socket_manualScan w raw socketId now = processManualScan w raw socketId now"

text \<open>
  The handler of \<^verbatim>\<open>POST /manual-scan\<close> in \<^verbatim>\<open>routes/rfid.js\<close>: a missing or empty uid and
  a service outside mock mode are refused with status 400 before the pipeline is
  called.
\<close>

definition post_manual_scan :: "world \<Rightarrow> raw_uid \<Rightarrow> time \<Rightarrow> js_error option \<times> world" where
  "post_manual_scan w raw now =
     (if raw = UidUndefined \<or> raw = UidString [] then (Some UidRequired, w)
      else if \<not> mockMode w then (Some ManualScanOnlyInMockMode, w)
      else simulateScan w raw now)"

section \<open>Purchase ledger\<close>

text \<open>
  The data of a purchase as the service receives it: the body of a completion request,
  the payload of a socket command, or the object the reservation workflow builds.
  \<open>pd_userId\<close>, \<open>pd_paymentMethod\<close> and \<open>pd_paidAmount\<close> may be absent; an absent item
  list is the empty list.
\<close>

record purchase_data =
  pd_userId :: "object_id option"
  pd_uid :: string
  pd_userName :: string
  pd_userCategory :: string
  pd_items :: "purchase_item list"
  pd_totalAmount :: real
  pd_paymentMethod :: "payment_method option"
  pd_paidAmount :: "real option"
  pd_notes :: "note_fragment list"
  pd_cafeteriaStation :: string
  pd_processedBy :: string

record purchase_result =
  result_purchase :: purchase
  result_message :: string
  result_paymentMethod :: "payment_method option"
  result_change :: real

text \<open>
  The validators of \<^verbatim>\<open>purchaseItemSchema\<close> and \<^verbatim>\<open>purchaseSchema\<close>, which \<^verbatim>\<open>save\<close> runs:
  required strings are not empty, prices, subtotals and the total are at least 0,
  quantities at least 1, category and payment method are in their enums.
\<close>

definition item_valid :: "purchase_item \<Rightarrow> bool" where
  "item_valid it \<longleftrightarrow>
     item_name it \<noteq> [] \<and> 0 \<le> price it \<and> 1 \<le> item_quantity it \<and> 0 \<le> subtotal it"

definition purchase_valid :: "purchase \<Rightarrow> bool" where
  "purchase_valid p \<longleftrightarrow>
     purchase_uid p \<noteq> [] \<and> userName p \<noteq> [] \<and>
     userCategory p \<in> set [''staff'', ''student''] \<and>
     list_all item_valid (items p) \<and>
     0 \<le> totalAmount p \<and>
     paymentMethod p \<in> set [Cash, MonthlyBilling]"

definition cast_item :: "purchase_item \<Rightarrow> purchase_item" where
  "cast_item it = it\<lparr>item_name := trim (item_name it)\<rparr>"

text \<open>\<^verbatim>\<open>calculateTotal\<close>: \<^verbatim>\<open>items.reduce((total, item) => total + item.price * item.quantity, 0)\<close>.\<close>

definition calculateTotal :: "purchase_item list \<Rightarrow> real" where
  "calculateTotal its = foldl (\<lambda>total item. total + price item * item_quantity item) 0 its"

text \<open>
  The payment branch of \<^verbatim>\<open>completePurchase\<close>: status, paid-at, cash amount, change and the
  fragments appended to the notes. \<open>None\<close> when \<^verbatim>\<open>paidAmount.toFixed\<close> throws on an absent
  amount.
\<close>

definition payment_branch ::
  "purchase_data \<Rightarrow> time \<Rightarrow>
   (payment_status \<times> time option \<times> real option \<times> real option \<times> note_fragment list) option" where
  "payment_branch pd now =
     (if pd_paymentMethod pd = Some Cash
      then (case pd_paidAmount pd of
              None \<Rightarrow> None
            | Some paid \<Rightarrow>
                (if paid > pd_totalAmount pd
                 then Some (Paid, Some now, Some paid, Some (paid - pd_totalAmount pd),
                            [CashPaymentNote paid, ChangeNote (paid - pd_totalAmount pd)])
                 else Some (Paid, Some now, Some paid, None, [CashPaymentNote paid])))
      else if pd_paymentMethod pd = Some MonthlyBilling
      then Some (PaymentPending, None, None, None, [MonthlyBillNote])
      else Some (PaymentPending, None, None, None, []))"

text \<open>
  The document \<^verbatim>\<open>new Purchase({...})\<close> of \<^verbatim>\<open>completePurchase\<close>, given the buyer and the
  outcome of the payment branch.
\<close>

definition new_purchase ::
  "world \<Rightarrow> purchase_data \<Rightarrow> object_id \<Rightarrow> time \<Rightarrow>
   payment_status \<times> time option \<times> real option \<times> real option \<times> note_fragment list \<Rightarrow>
   purchase" where
  "new_purchase w pd buyer now pay =
     (case pay of (pstatus, paid_at, cash, chg, extra) \<Rightarrow>
        \<lparr>userId = buyer,
         purchase_uid = trim (pd_uid pd),
         userName = trim (pd_userName pd),
         userCategory = (if pd_userCategory pd = [] then ''student'' else pd_userCategory pd),
         items = map cast_item (pd_items pd),
         totalAmount = pd_totalAmount pd,
         purchasedAt = now,
         paymentStatus = pstatus,
         paidAt = paid_at,
         paymentMethod = (case pd_paymentMethod pd of None \<Rightarrow> MonthlyBilling | Some m \<Rightarrow> m),
         cashAmount = cash,
         change = chg,
         purchase_notes = pd_notes pd @ extra,
         cafeteriaStation =
           (if pd_cafeteriaStation pd = [] then stationId w else pd_cafeteriaStation pd),
         processedBy =
           (if pd_processedBy pd = [] then ''rfid_system'' else pd_processedBy pd)\<rparr>)"

text \<open>The object \<^verbatim>\<open>completePurchase\<close> returns.\<close>

definition purchase_response :: "purchase_data \<Rightarrow> purchase \<Rightarrow> purchase_result" where
  "purchase_response pd p =
     \<lparr>result_purchase = p,
      result_message =
        (if pd_paymentMethod pd = Some Cash then ''Cash payment completed successfully''
         else ''Purchase added to monthly bill''),
      result_paymentMethod = pd_paymentMethod pd,
      result_change =
        (case pd_paidAmount pd of
           None \<Rightarrow> 0
         | Some paid \<Rightarrow>
             if pd_paymentMethod pd = Some Cash \<and> paid > pd_totalAmount pd
             then paid - pd_totalAmount pd else 0)\<rparr>"

text \<open>\<^verbatim>\<open>User.findByIdAndUpdate(id, { lastScanAt: new Date(), $inc: { scanCount: 1 } })\<close>.\<close>

definition bump_scan :: "object_id \<Rightarrow> time \<Rightarrow> user list \<Rightarrow> user list" where
  "bump_scan i now us =
     update_first (\<lambda>d. user_id d = i)
       (\<lambda>d. d\<lparr>lastScanAt := Some now, scanCount := scanCount d + 1\<rparr>) us"

text \<open>
  \<^verbatim>\<open>completePurchase\<close>: check the data, branch on the payment method, build and save the
  purchase, then update the buyer's scan bookkeeping. Every error is rethrown.
\<close>

definition completePurchase ::
  "world \<Rightarrow> purchase_data \<Rightarrow> time \<Rightarrow> (js_error + purchase_result) \<times> world" where
  "completePurchase w pd now =
     (case pd_userId pd of
        None \<Rightarrow> (Inl InvalidPurchaseData, w)
      | Some buyer \<Rightarrow>
          if pd_items pd = [] then (Inl InvalidPurchaseData, w)
          else (case payment_branch pd now of
                  None \<Rightarrow> (Inl TypeError, w)
                | Some pay \<Rightarrow>
                    (let p = new_purchase w pd buyer now pay
                     in if \<not> purchase_valid p then (Inl ValidationError, w)
                        else (let (ok, w1) = db_call PurchaseSave w
                              in if \<not> ok then (Inl StorageError, w1)
                                 else (let w2 = w1\<lparr>purchases := purchases w1 @ [p]\<rparr>;
                                           (ok2, w3) = db_call (UserFindByIdAndUpdate buyer) w2
                                       in if \<not> ok2 then (Inl StorageError, w3)
                                          else (Inr (purchase_response pd p),
                                                w3\<lparr>users := bump_scan buyer now (users w3)\<rparr>))))))"

text \<open>
  \<^verbatim>\<open>validatePurchaseItems\<close>: each item's food exists, is available and active, and its
  price is the submitted one within 0.01; the first failure is thrown.
\<close>

fun validatePurchaseItems :: "world \<Rightarrow> purchase_item list \<Rightarrow> js_error option \<times> world" where
  "validatePurchaseItems w [] = (None, w)"
| "validatePurchaseItems w (it # its) =
     (let (ok, w1) = db_call (FoodFindById (item_foodId it)) w
      in if \<not> ok then (Some StorageError, w1)
         else (case find (\<lambda>f. food_id f = item_foodId it) (foods w1) of
                 None \<Rightarrow> (Some (FoodNotFound (item_name it)), w1)
               | Some f \<Rightarrow>
                   if \<not> isAvailable f \<or> \<not> food_isActive f
                   then (Some (FoodNotAvailable (food_name f)), w1)
                   else if \<bar>price it - food_price f\<bar> > 1 / 100
                   then (Some (PriceMismatch (food_name f)), w1)
                   else validatePurchaseItems w1 its))"

text \<open>
  The handler of \<^verbatim>\<open>POST /complete\<close> in \<^verbatim>\<open>routes/purchases.js\<close>. \<open>Inl\<close> is the response
  with status 400 and the error; \<open>Inr\<close> is the result sent back on success.
\<close>

definition post_complete ::
  "world \<Rightarrow> purchase_data \<Rightarrow> time \<Rightarrow> (js_error + purchase_result) \<times> world" where
  "post_complete w body now =
     (if pd_userId body = None \<or> pd_items body = [] then (Inl InvalidPurchaseData, w)
      else if pd_paymentMethod body \<notin> set [Some Cash, Some MonthlyBilling]
      then (Inl InvalidPaymentMethod, w)
      else (case validatePurchaseItems w (pd_items body) of
              (Some e, w1) \<Rightarrow> (Inl e, w1)
            | (None, w1) \<Rightarrow>
                if \<bar>calculateTotal (pd_items body) - pd_totalAmount body\<bar> > 1 / 100
                then (Inl TotalAmountMismatch, w1)
                else if pd_paymentMethod body = Some Cash \<and>
                        (case pd_paidAmount body of
                           None \<Rightarrow> True
                         | Some paid \<Rightarrow> paid = 0 \<or> paid < pd_totalAmount body)
                then (Inl InsufficientCashAmount, w1)
                else completePurchase w1 body now))"

text \<open>
  The \<^verbatim>\<open>completePurchase\<close> command of the real-time channel in \<^verbatim>\<open>server.js\<close>: the payload
  goes to the service as it is; a result is broadcast as a purchase update.
\<close>

definition socket_completePurchase ::
  "world \<Rightarrow> purchase_data \<Rightarrow> time \<Rightarrow> (js_error + purchase_result) \<times> world" where
  "socket_completePurchase w payload now =
     (case completePurchase w payload now of
        (Inl e, w1) \<Rightarrow> (Inl e, w1)
      | (Inr res, w1) \<Rightarrow>
          (Inr res, w1\<lparr>emitted := emitted w1 @ [PurchaseUpdate (result_purchase res)]\<rparr>))"

section \<open>Reservation workflow: confirmation\<close>

text \<open>\<^verbatim>\<open>reservation.actualCost || reservation.estimatedCost\<close>: \<^verbatim>\<open>null\<close> and 0 are falsy.\<close>

definition reservation_cost :: "reservation \<Rightarrow> real" where
  "reservation_cost r =
     (case actualCost r of
        None \<Rightarrow> estimatedCost r
      | Some c \<Rightarrow> if c = 0 then estimatedCost r else c)"

text \<open>The \<^verbatim>\<open>purchaseData\<close> object built for a served reservation.\<close>

definition reservation_purchase_data ::
  "world \<Rightarrow> reservation \<Rightarrow> user \<Rightarrow> food \<Rightarrow> time \<Rightarrow> purchase_data" where
  "reservation_purchase_data w r student f now =
     \<lparr>pd_userId = Some (user_id student),
      pd_uid = uid student,
      pd_userName = name student,
      pd_userCategory =
        (if user_category student = [] then ''student'' else user_category student),
      pd_items =
        [\<lparr>item_foodId = food_id f, item_name = food_name f, price = reservation_cost r,
          item_quantity = quantity r, subtotal = reservation_cost r * quantity r\<rparr>],
      pd_totalAmount = reservation_cost r * quantity r,
      pd_paymentMethod = None,
      pd_paidAmount = None,
      pd_notes = [ReservationFulfilledNote (mealType r) now],
      pd_cafeteriaStation = stationId w,
      pd_processedBy = ''rfid_reservation_system''\<rparr>"

text \<open>
  The fallback of \<^verbatim>\<open>confirmReservation\<close> when no purchase service is passed:
  \<^verbatim>\<open>new Purchase(purchaseData)\<close> with the schema's defaults, saved directly.
\<close>

definition direct_purchase :: "purchase_data \<Rightarrow> object_id \<Rightarrow> time \<Rightarrow> purchase" where
  "direct_purchase pd buyer now =
     \<lparr>userId = buyer,
      purchase_uid = trim (pd_uid pd),
      userName = trim (pd_userName pd),
      userCategory = pd_userCategory pd,
      items = map cast_item (pd_items pd),
      totalAmount = pd_totalAmount pd,
      purchasedAt = now,
      paymentStatus = PaymentPending,
      paidAt = None,
      paymentMethod = MonthlyBilling,
      cashAmount = None,
      change = None,
      purchase_notes = pd_notes pd,
      cafeteriaStation = pd_cafeteriaStation pd,
      processedBy = pd_processedBy pd\<rparr>"

record confirm_result =
  confirmed_reservation :: reservation
  confirmed_purchase :: purchase

definition mark_served :: "string \<Rightarrow> time \<Rightarrow> reservation \<Rightarrow> reservation" where
  "mark_served station now r =
     r\<lparr>status := Served, servedAt := Some now, rfidProcessedAt := Some now,
       servedByStation := station\<rparr>"

text \<open>
  \<^verbatim>\<open>confirmReservation\<close>. The reservation is found with its student and food populated
  (\<^verbatim>\<open>null\<close> where the referenced document is gone). After the three guards it is saved as
  served by \<^verbatim>\<open>markServedByRFID\<close>; then the purchase is created in an inner \<^verbatim>\<open>try\<close> whose
  failure is rethrown as served-but-unbilled. \<open>purchaseService\<close> says whether the caller
  passed the purchase service.
\<close>

definition confirmReservation ::
  "world \<Rightarrow> object_id \<Rightarrow> bool \<Rightarrow> time \<Rightarrow> (js_error + confirm_result) \<times> world" where
  "confirmReservation w rid purchaseService now =
     (let (ok, w1) = db_call (ReservationFindById rid) w
      in if \<not> ok then (Inl StorageError, w1)
         else (case find (\<lambda>r. reservation_id r = rid) (reservations w1) of
                 None \<Rightarrow> (Inl ReservationNotFound, w1)
               | Some r \<Rightarrow>
                   if status r = Served then (Inl AlreadyServed, w1)
                   else if status r = Cancelled then (Inl CannotConfirmCancelled, w1)
                   else (let (ok2, w2) = db_call (ReservationSave rid) w1
                         in if \<not> ok2 then (Inl StorageError, w2)
                            else (let w3 = w2\<lparr>reservations :=
                                               update_first (\<lambda>d. reservation_id d = rid)
                                                 (mark_served (stationId w2) now)
                                                 (reservations w2)\<rparr>
                                  in case (find (\<lambda>u. user_id u = studentId r) (users w1),
                                           find (\<lambda>f. food_id f = foodId r) (foods w1)) of
                                       (Some student, Some f) \<Rightarrow>
                                         (let pd = reservation_purchase_data w3 r student f now
                                          in if purchaseService
                                             then (case completePurchase w3 pd now of
                                                     (Inl e, w4) \<Rightarrow>
                                                       (Inl (ServedButPurchaseFailed e), w4)
                                                   | (Inr res, w4) \<Rightarrow>
                                                       (Inr \<lparr>confirmed_reservation =
                                                               mark_served (stationId w2) now r,
                                                             confirmed_purchase =
                                                               result_purchase res\<rparr>, w4))
                                             else (let p = direct_purchase pd (user_id student) now
                                                   in if \<not> purchase_valid p
                                                      then (Inl (ServedButPurchaseFailed
                                                                   ValidationError), w3)
                                                      else (let (ok3, w4) = db_call PurchaseSave w3
                                                            in if \<not> ok3
                                                               then (Inl (ServedButPurchaseFailed
                                                                            StorageError), w4)
                                                               else (Inr \<lparr>confirmed_reservation =
                                                                            mark_served (stationId w2) now r,
                                                                          confirmed_purchase = p\<rparr>,
                                                                     w4\<lparr>purchases :=
                                                                          purchases w4 @ [p]\<rparr>))))
                                     | _ \<Rightarrow> (Inl (ServedButPurchaseFailed TypeError), w3)))))"

text \<open>
  The \<^verbatim>\<open>confirmReservation\<close> command of the real-time channel in \<^verbatim>\<open>server.js\<close>; the
  route \<^verbatim>\<open>POST /:id/confirm\<close> calls the service in the same way.
\<close>

definition socket_confirmReservation ::
  "world \<Rightarrow> object_id \<Rightarrow> time \<Rightarrow> (js_error + confirm_result) \<times> world" where
  "socket_confirmReservation w rid now =
     (case confirmReservation w rid True now of
        (Inl e, w1) \<Rightarrow> (Inl e, w1)
      | (Inr res, w1) \<Rightarrow>
          (Inr res, w1\<lparr>emitted := emitted w1 @
             [ReservationUpdate (confirmed_reservation res) (confirmed_purchase res)]\<rparr>))"

section \<open>Runs of the pipeline and sample data\<close>

text \<open>
  \<^verbatim>\<open>initializeMockReader\<close>: the service is connected to a mock reader. The broadcast of
  that connection is sent by a timer one second later and is not part of the call.
\<close>

definition initializeMockReader :: "world \<Rightarrow> world" where
  "initializeMockReader w = w\<lparr>connected := True, reader := Some ''Mock ACR1252''\<rparr>"

text \<open>
  The constructor of \<^verbatim>\<open>RFIDService\<close>: it resets the fields and initialises the reader. In
  mock mode that is the mock reader; otherwise the NFC instance is created and the
  service waits for \<^verbatim>\<open>reader\<close> events (a failing NFC constructor, which falls back to the
  mock reader, is not modelled).
\<close>

definition new_RFIDService :: "world \<Rightarrow> world" where
  "new_RFIDService w =
     (let w0 = w\<lparr>connected := False, reader := None, lastScanTime := None,
                  scanHistory := []\<rparr>
      in if mockMode w0 then initializeMockReader w0 else w0)"

text \<open>A sequence of scans, each with the clock reading at which it is processed.\<close>

fun process_scans :: "world \<Rightarrow> (raw_uid \<times> time) list \<Rightarrow> world" where
  "process_scans w [] = w"
| "process_scans w ((raw, now) # rest) = process_scans (snd (processCardScan w raw now)) rest"

text \<open>What one scan broadcasts: the events it adds to the log.\<close>

definition scan_broadcasts :: "world \<Rightarrow> raw_uid \<Rightarrow> time \<Rightarrow> event list" where
  "scan_broadcasts w raw now =
     drop (length (emitted w)) (emitted (snd (processCardScan w raw now)))"

text \<open>The scans that reach the history: uid as normalised, with its timestamp.\<close>

definition recorded_scans :: "(raw_uid \<times> time) list \<Rightarrow> (string \<times> time) list" where
  "recorded_scans scans =
     List.map_filter (\<lambda>(raw, now). map_option (\<lambda>s. (s, now)) (normalize_uid raw)) scans"

definition entry_key :: "scan_entry \<Rightarrow> string \<times> time" where
  "entry_key e = (scan_uid e, scan_timestamp e)"

text \<open>Whether the next storage call fails.\<close>

definition storage_fails :: "world \<Rightarrow> bool" where
  "storage_fails w = (case db_faults w of [] \<Rightarrow> False | f # _ \<Rightarrow> f)"

text \<open>Two instants on the same local calendar day.\<close>

definition same_local_day :: "int \<Rightarrow> time \<Rightarrow> time \<Rightarrow> bool" where
  "same_local_day tz t now \<longleftrightarrow> (t + tz) div msPerDay = (now + tz) div msPerDay"

text \<open>
  Sample data: an active student with a pending lunch reservation for two portions at
  3.50, a deactivated account that is also blocked with an expiry in the past, and an
  active account whose block has expired.
\<close>

definition ada :: user where
  "ada = \<lparr>user_id = 1, uid = ''A1B2'', name = ''Ada'', class_or_year = ''5A'',
          user_category = ''student'', email = ''ada@school.edu'', isActive = True,
          lastScanAt = None, scanCount = 0, isBlocked = False, blockInfo = cleared_block\<rparr>"

definition expired_block :: block_info where
  "expired_block =
     \<lparr>reason = ''Unpaid bill'', block_notes = [], blockedAt = Some 100, blockedBy = None,
      expiresAt = Some 500, autoUnblockProcessed = False\<rparr>"

definition bob :: user where
  "bob = \<lparr>user_id = 2, uid = ''C3D4'', name = ''Bob'', class_or_year = ''6B'',
          user_category = ''student'', email = ''bob@school.edu'', isActive = False,
          lastScanAt = None, scanCount = 0, isBlocked = True, blockInfo = expired_block\<rparr>"

definition eve :: user where
  "eve = \<lparr>user_id = 3, uid = ''E5F6'', name = ''Eve'', class_or_year = ''staff'',
          user_category = ''staff'', email = ''eve@school.edu'', isActive = True,
          lastScanAt = None, scanCount = 4, isBlocked = True, blockInfo = expired_block\<rparr>"

definition pasta :: food where
  "pasta = \<lparr>food_id = 10, food_name = ''Pasta'', food_price = 7 / 2, isAvailable = True,
            food_isActive = True\<rparr>"

definition soup :: food where
  "soup = \<lparr>food_id = 11, food_name = ''Soup'', food_price = 5 / 2, isAvailable = True,
           food_isActive = True\<rparr>"

definition lunch_for_ada :: reservation where
  "lunch_for_ada =
     \<lparr>reservation_id = 100, parentId = 50, studentId = 1, foodId = 10,
      reservationDate = 1000, quantity = 2, mealType = Lunch, status = Pending,
      estimatedCost = 7 / 2, actualCost = None, servedAt = None, servedByStation = [],
      rfidProcessedAt = None\<rparr>"

definition cafeteria :: world where
  "cafeteria =
     \<lparr>users = [ada, bob, eve], foods = [pasta, soup], reservations = [lunch_for_ada],
      purchases = [], db_faults = [], db_log = [], connected = False, reader = None,
      lastScanTime = None, scanHistory = [], mockMode = True, cardHandlers = [],
      emitted = [],
      stationId = ''STATION_001'', readerName = ''ACR1252'', tzOffset = 0\<rparr>"

text \<open>The same station driving a hardware reader.\<close>

definition hardware_station :: world where
  "hardware_station = cafeteria\<lparr>mockMode := False\<rparr>"

text \<open>A day with reservations of every kind for Ada, and an account blocked without expiry.\<close>

definition busy_day :: world where
  "busy_day = cafeteria\<lparr>reservations :=
     [lunch_for_ada\<lparr>reservation_id := 101, mealType := Snack, status := Confirmed,
        reservationDate := 5000\<rparr>,
      lunch_for_ada\<lparr>reservation_id := 102, reservationDate := 3000\<rparr>,
      lunch_for_ada\<lparr>reservation_id := 103, mealType := Breakfast, status := Prepared,
        reservationDate := 4000\<rparr>,
      lunch_for_ada\<lparr>reservation_id := 104, status := Served, reservationDate := 3000\<rparr>,
      lunch_for_ada\<lparr>reservation_id := 105, studentId := 3\<rparr>,
      lunch_for_ada\<lparr>reservation_id := 106, reservationDate := 86400000\<rparr>,
      lunch_for_ada\<lparr>reservation_id := 107, mealType := Dinner, reservationDate := 1000\<rparr>,
      lunch_for_ada\<lparr>reservation_id := 108, reservationDate := 2500\<rparr>,
      lunch_for_ada\<lparr>reservation_id := 109, status := Cancelled\<rparr>,
      lunch_for_ada\<lparr>reservation_id := 110, reservationDate := - 1\<rparr>]\<rparr>"

definition blocked_for_good :: user where
  "blocked_for_good = eve\<lparr>blockInfo := expired_block\<lparr>expiresAt := None\<rparr>\<rparr>"

text \<open>
  Whether the purchase built for a reservation passes the purchase schema: student and
  food resolve, their names and the student's uid are not blank, the category is in the
  enum (an empty one defaults to \<^verbatim>\<open>student\<close>), the cost is not negative and the quantity
  is at least 1.
\<close>

definition billable :: "world \<Rightarrow> reservation \<Rightarrow> bool" where
  "billable w r \<longleftrightarrow>
     (case (find (\<lambda>u. user_id u = studentId r) (users w),
            find (\<lambda>f. food_id f = foodId r) (foods w)) of
        (Some student, Some f) \<Rightarrow>
          trim (uid student) \<noteq> [] \<and> trim (name student) \<noteq> [] \<and>
          user_category student \<in> set [[], ''staff'', ''student''] \<and>
          trim (food_name f) \<noteq> [] \<and>
          0 \<le> reservation_cost r \<and> 1 \<le> quantity r
      | _ \<Rightarrow> False)"

text \<open>
  Sample purchases: two soups at 2.50 on the monthly bill; the same paid in cash with
  3.00 tendered; the same with a submitted total of 1.00. Sample reservations: Ada's
  lunch with an actual cost recorded as 0, and with a negative actual cost.
\<close>

definition soup_order :: purchase_data where
  "soup_order =
     \<lparr>pd_userId = Some 1, pd_uid = ''A1B2'', pd_userName = ''Ada'',
      pd_userCategory = ''student'',
      pd_items = [\<lparr>item_foodId = 11, item_name = ''Soup'', price = 5 / 2,
                   item_quantity = 2, subtotal = 5\<rparr>],
      pd_totalAmount = 5, pd_paymentMethod = Some MonthlyBilling, pd_paidAmount = None,
      pd_notes = [], pd_cafeteriaStation = [], pd_processedBy = []\<rparr>"

definition underpaid_cash :: purchase_data where
  "underpaid_cash = soup_order\<lparr>pd_paymentMethod := Some Cash, pd_paidAmount := Some 3\<rparr>"

definition wrong_total :: purchase_data where
  "wrong_total = soup_order\<lparr>pd_totalAmount := 1\<rparr>"

definition comped_lunch :: world where
  "comped_lunch = cafeteria\<lparr>reservations := [lunch_for_ada\<lparr>actualCost := Some 0\<rparr>]\<rparr>"

definition negative_lunch :: world where
  "negative_lunch = cafeteria\<lparr>reservations := [lunch_for_ada\<lparr>actualCost := Some (- 1)\<rparr>]\<rparr>"

section \<open>Facts about storage calls\<close>

lemma db_call_fields [simp]:
  "users (snd (db_call op w)) = users w"
  "foods (snd (db_call op w)) = foods w"
  "reservations (snd (db_call op w)) = reservations w"
  "purchases (snd (db_call op w)) = purchases w"
  "connected (snd (db_call op w)) = connected w"
  "reader (snd (db_call op w)) = reader w"
  "lastScanTime (snd (db_call op w)) = lastScanTime w"
  "scanHistory (snd (db_call op w)) = scanHistory w"
  "mockMode (snd (db_call op w)) = mockMode w"
  "cardHandlers (snd (db_call op w)) = cardHandlers w"
  "emitted (snd (db_call op w)) = emitted w"
  "stationId (snd (db_call op w)) = stationId w"
  "readerName (snd (db_call op w)) = readerName w"
  "tzOffset (snd (db_call op w)) = tzOffset w"
  "db_log (snd (db_call op w)) = db_log w @ [op]"
  by (simp_all add: db_call_def split: list.splits)

lemma fst_db_call [simp]: "fst (db_call op w) = (\<not> storage_fails w)"
  by (simp add: db_call_def storage_fails_def split: list.splits)

lemma db_call_reliable [simp]:
  "db_faults w = [] \<Longrightarrow> db_faults (snd (db_call op w)) = []"
  by (simp add: db_call_def)

lemma storage_fails_reliable [simp]: "db_faults w = [] \<Longrightarrow> \<not> storage_fails w"
  by (simp add: storage_fails_def)

section \<open>Facts about the services the pipeline calls\<close>

lemma getUserByUID_fields [simp]:
  "users (snd (getUserByUID w u)) = users w"
  "scanHistory (snd (getUserByUID w u)) = scanHistory w"
  "emitted (snd (getUserByUID w u)) = emitted w"
  "db_log (snd (getUserByUID w u)) = db_log w @ [UserFindOne u]"
  by (simp_all add: getUserByUID_def case_prod_beta)

lemma getUserByUID_result:
  "fst (getUserByUID w u) =
     (if storage_fails w then None
      else find (\<lambda>d. uid d = trim u \<and> isActive d) (users w))"
  by (simp add: getUserByUID_def case_prod_beta)

lemma getUserByUID_active:
  "fst (getUserByUID w u) = Some d \<Longrightarrow>
   isActive d \<and> uid d = trim u \<and> d \<in> set (users w)"
  by (auto simp: getUserByUID_result find_Some_iff split: if_splits)

lemma validateUserAccess_fields [simp]:
  "scanHistory (snd (validateUserAccess w u now)) = scanHistory w"
  "emitted (snd (validateUserAccess w u now)) = emitted w"
  by (simp_all add: validateUserAccess_def case_prod_beta Let_def)

lemma validateUserAccess_active:
  "isActive u \<Longrightarrow> fst (fst (validateUserAccess w u now)) \<noteq> NoAccess ''Account is inactive'' m"
  by (simp add: validateUserAccess_def case_prod_beta Let_def)

lemma getTodayReservations_fields [simp]:
  "users (snd (getTodayReservations w i now)) = users w"
  "scanHistory (snd (getTodayReservations w i now)) = scanHistory w"
  "emitted (snd (getTodayReservations w i now)) = emitted w"
  by (simp_all add: getTodayReservations_def case_prod_beta)

lemma updateLastScan_fields [simp]:
  "scanHistory (snd (updateLastScan w i now)) = scanHistory w"
  "emitted (snd (updateLastScan w i now)) = emitted w"
  by (simp_all add: updateLastScan_def case_prod_beta Let_def split: option.splits)

section \<open>One scan\<close>

lemma storage_fails_update [simp]:
  "storage_fails (w\<lparr>lastScanTime := a\<rparr>) = storage_fails w"
  "storage_fails (w\<lparr>scanHistory := b\<rparr>) = storage_fails w"
  "storage_fails (w\<lparr>emitted := c\<rparr>) = storage_fails w"
  by (simp_all add: storage_fails_def)

lemma processCardScan_not_found:
  assumes "normalize_uid raw = Some s" and "fst (getUserByUID w s) = None"
  shows "processCardScan w raw now =
    (None, (snd (db_call (UserFindOne s)
       (w\<lparr>lastScanTime := Some now,
          scanHistory := add_to_history
             \<lparr>scan_uid = s, scan_timestamp = now, processed = False\<rparr> (scanHistory w),
          emitted := emitted w @ [CardScanned s now]\<rparr>)))
       \<lparr>emitted := emitted w @ [CardScanned s now, ScanResult s UserNotFound]\<rparr>)"
  using assms
  by (simp add: processCardScan_def Let_def getUserByUID_def case_prod_beta split: if_splits)

lemma emitted_processCardScan:
  "normalize_uid raw = Some s \<Longrightarrow>
   \<exists>outcome. emitted (snd (processCardScan w raw now)) =
     emitted w @ [CardScanned s now, ScanResult s outcome]"
  by (simp add: processCardScan_def case_prod_beta Let_def split: option.splits access_check.splits)

lemma emitted_processCardScan_undefined:
  "normalize_uid raw = None \<Longrightarrow> emitted (snd (processCardScan w raw now)) = emitted w"
  by (cases raw) (simp_all add: processCardScan_def scan_catch_def)

lemma no_inactive_denial:
  "ScanResult x (AccessDenied ''Account is inactive'' m) \<notin> set (scan_broadcasts w raw now)"
proof (cases "normalize_uid raw")
  case None
  then show ?thesis
    by (simp add: scan_broadcasts_def emitted_processCardScan_undefined)
next
  case (Some s)
  show ?thesis
  proof (cases "fst (getUserByUID (w\<lparr>lastScanTime := Some now,
          scanHistory := add_to_history
             \<lparr>scan_uid = s, scan_timestamp = now, processed = False\<rparr> (scanHistory w),
          emitted := emitted w @ [CardScanned s now]\<rparr>) s)")
    case None
    with Some show ?thesis
      by (simp add: scan_broadcasts_def processCardScan_def Let_def case_prod_beta)
  next
    case (Some d)
    then have "isActive d" by (rule getUserByUID_active [THEN conjunct1])
    with Some \<open>normalize_uid raw = Some s\<close> show ?thesis
      using validateUserAccess_active [of d]
      by (auto simp add: scan_broadcasts_def processCardScan_def Let_def case_prod_beta
          split: access_check.splits)
  qed
qed

section \<open>The history\<close>

lemma keys_update_first_processed [simp]:
  "map entry_key (update_first P (\<lambda>e. e\<lparr>processed := True\<rparr>) h) = map entry_key h"
  by (induction h) (simp_all add: entry_key_def)

lemma add_to_history_take: "add_to_history e h = take 100 (e # h)"
  by (simp add: add_to_history_def)

lemma keys_take_entry:
  "map entry_key (take n (\<lparr>scan_uid = s, scan_timestamp = now, processed = b\<rparr> # h)) =
     take n ((s, now) # map entry_key h)"
proof -
  have "map entry_key (take n (\<lparr>scan_uid = s, scan_timestamp = now, processed = b\<rparr> # h)) =
     take n (map entry_key (\<lparr>scan_uid = s, scan_timestamp = now, processed = b\<rparr> # h))"
    by (rule take_map [symmetric])
  then show ?thesis by (simp add: entry_key_def)
qed

lemma keys_processCardScan:
  "map entry_key (scanHistory (snd (processCardScan w raw now))) =
     (case normalize_uid raw of
        None \<Rightarrow> map entry_key (scanHistory w)
      | Some s \<Rightarrow> take 100 ((s, now) # map entry_key (scanHistory w)))"
proof (cases "normalize_uid raw")
  case None
  then show ?thesis
    by (cases raw) (simp_all add: processCardScan_def scan_catch_def)
next
  case (Some s)
  then show ?thesis
    by (simp add: processCardScan_def case_prod_beta Let_def add_to_history_take
        keys_take_entry del: take_Cons_numeral
        split: option.splits access_check.splits)
qed

lemma take_append_take: "take n (xs @ take n ys) = take n (xs @ ys)"
  by simp

lemma recorded_scans_Cons:
  "recorded_scans ((raw, now) # rest) =
     (case normalize_uid raw of None \<Rightarrow> recorded_scans rest
      | Some s \<Rightarrow> (s, now) # recorded_scans rest)"
  by (simp add: recorded_scans_def split: option.splits)

lemma keys_process_scans:
  "length (scanHistory w) \<le> 100 \<Longrightarrow>
   map entry_key (scanHistory (process_scans w scans)) =
     take 100 (rev (recorded_scans scans) @ map entry_key (scanHistory w))"
proof (induction scans arbitrary: w)
  case Nil
  then show ?case by (simp add: recorded_scans_def)
next
  case (Cons a scans)
  obtain raw now where a: "a = (raw, now)" by (cases a)
  let ?w = "snd (processCardScan w raw now)"
  have "length (map entry_key (scanHistory ?w)) \<le> 100"
    using Cons.prems by (simp only: keys_processCardScan) (simp split: option.splits)
  then have len: "length (scanHistory ?w) \<le> 100" by simp
  show ?case
  proof (cases "normalize_uid raw")
    case None
    then show ?thesis
      using Cons.IH [OF len] by (simp add: a recorded_scans_Cons keys_processCardScan)
  next
    case (Some s)
    have "take 100 (rev (recorded_scans scans) @ take 100 ((s, now) # map entry_key (scanHistory w)))
        = take 100 (rev (recorded_scans scans) @ (s, now) # map entry_key (scanHistory w))"
      by (rule take_append_take)
    then show ?thesis
      using Cons.IH [OF len] Some by (simp add: a recorded_scans_Cons keys_processCardScan)
  qed
qed


lemma scan_broadcasts_append:
  "emitted (snd (processCardScan w raw now)) = emitted w @ scan_broadcasts w raw now"
proof (cases "normalize_uid raw")
  case None
  then show ?thesis by (simp add: scan_broadcasts_def emitted_processCardScan_undefined)
next
  case (Some s)
  from emitted_processCardScan [OF this, of w now] show ?thesis
    by (auto simp: scan_broadcasts_def)
qed

lemma getUserByUID_cong:
  "users w' = users w \<Longrightarrow> db_faults w' = db_faults w \<Longrightarrow>
   fst (getUserByUID w' s) = fst (getUserByUID w s)"
  by (simp add: getUserByUID_result storage_fails_def)

lemma processCardScan_unresolved:
  assumes "normalize_uid raw = Some s" and "fst (getUserByUID w s) = None"
  shows "emitted (snd (processCardScan w raw now)) =
           emitted w @ [CardScanned s now, ScanResult s UserNotFound]"
    and "users (snd (processCardScan w raw now)) = users w"
    and "reservations (snd (processCardScan w raw now)) = reservations w"
    and "db_log (snd (processCardScan w raw now)) = db_log w @ [UserFindOne s]"
    and "fst (processCardScan w raw now) = None"
  using assms
  by (simp_all add: processCardScan_def Let_def getUserByUID_def case_prod_beta split: if_splits)

text \<open>
  C5. A scan whose UID does not resolve to a person (the lookup answers null) broadcasts
  the scan-in-progress event and then the terminal not-found result, and stops: the
  lookup is the only storage call it issues, so no reservation is looked up, and the user
  collection, with every scan counter and last-scan timestamp, is unchanged.
\<close>

theorem unresolved_uid_stops_pipeline:
  assumes "normalize_uid raw = Some s" and "fst (getUserByUID w s) = None"
  shows "scan_broadcasts w raw now = [CardScanned s now, ScanResult s UserNotFound] \<and>
         fst (processCardScan w raw now) = None \<and>
         db_log (snd (processCardScan w raw now)) = db_log w @ [UserFindOne s] \<and>
         users (snd (processCardScan w raw now)) = users w \<and>
         reservations (snd (processCardScan w raw now)) = reservations w"
  using processCardScan_unresolved [OF assms, of now]
  by (simp add: scan_broadcasts_def)

theorem unresolved_uid_stops_pipeline_witness:
  "normalize_uid (UidString ''dead'') = Some ''DEAD'' \<and>
   fst (getUserByUID cafeteria ''DEAD'') = None \<and>
   scan_broadcasts cafeteria (UidString ''dead'') 2000 =
     [CardScanned ''DEAD'' 2000, ScanResult ''DEAD'' UserNotFound] \<and>
   db_log (snd (processCardScan cafeteria (UidString ''dead'') 2000)) = [UserFindOne ''DEAD''] \<and>
   users (snd (processCardScan cafeteria (UidString ''dead'') 2000)) = [ada, bob, eve]"
proof -
  have h1: "normalize_uid (UidString ''dead'') = Some ''DEAD''" by code_simp
  have h2: "fst (getUserByUID cafeteria ''DEAD'') = None" by code_simp
  show ?thesis
    using h1 h2 unresolved_uid_stops_pipeline [OF h1 h2, of 2000]
    by (simp add: cafeteria_def)
qed

text \<open>
  C6. Starting from a freshly constructed service, after any sequence of scans the
  history holds at most 100 entries, and they are the 100 most recent recorded scans,
  newest first: older ones are the ones dropped.
\<close>

theorem scan_history_keeps_latest_100:
  "length (scanHistory (process_scans (new_RFIDService w) scans)) \<le> 100 \<and>
   map entry_key (scanHistory (process_scans (new_RFIDService w) scans)) =
     take 100 (rev (recorded_scans scans))"
proof -
  have k: "map entry_key (scanHistory (process_scans (new_RFIDService w) scans)) =
     take 100 (rev (recorded_scans scans))"
    using keys_process_scans [of "new_RFIDService w" scans]
    by (simp add: new_RFIDService_def initializeMockReader_def Let_def)
  have "length (map entry_key (scanHistory (process_scans (new_RFIDService w) scans))) \<le> 100"
    by (simp only: k) simp
  then have "length (scanHistory (process_scans (new_RFIDService w) scans)) \<le> 100"
    by (simp only: length_map)
  then show ?thesis using k by (rule conjI)
qed

theorem scan_history_keeps_latest_100_witness:
  "length (scanHistory (process_scans (new_RFIDService cafeteria)
      (map (\<lambda>n. (UidString ''ab'', int n)) [0..<103]))) \<le> 100 \<and>
   map entry_key (scanHistory (process_scans (new_RFIDService cafeteria)
      (map (\<lambda>n. (UidString ''ab'', int n)) [0..<103]))) =
     map (\<lambda>n. (''AB'', int n)) (rev [3..<103])"
proof -
  have "take 100 (rev (recorded_scans (map (\<lambda>n. (UidString ''ab'', int n)) [0..<103]))) =
     map (\<lambda>n. (''AB'', int n)) (rev [3..<103])"
    by code_simp
  then show ?thesis
    using scan_history_keeps_latest_100
      [of cafeteria "map (\<lambda>n. (UidString ''ab'', int n)) [0..<103]"]
    by simp
qed

lemma fst_processCardScan:
  "normalize_uid raw = Some s \<Longrightarrow> fst (processCardScan w raw now) = None"
  by (simp add: processCardScan_def case_prod_beta Let_def
      split: option.splits access_check.splits)

text \<open>
  A scan that carries a UID (a buffer or a string) broadcasts exactly two events: the
  scan-in-progress event and then one terminal scan result; the function returns
  normally. A manual scan is the same function call, and so is a simulated scan in mock
  mode; outside mock mode a simulated scan is refused before the pipeline starts.
\<close>

lemma scan_with_uid_broadcasts_progress_then_one_result:
  assumes "normalize_uid raw = Some s"
  shows "(\<exists>outcome. scan_broadcasts w raw now = [CardScanned s now, ScanResult s outcome]) \<and>
         fst (processCardScan w raw now) = None \<and>
         processManualScan w raw socketId now = processCardScan w raw now \<and>
         (mockMode w \<longrightarrow> simulateScan w raw now = processCardScan w raw now) \<and>
         (\<not> mockMode w \<longrightarrow> simulateScan w raw now = (Some SimulateOnlyInMockMode, w))"
proof -
  from emitted_processCardScan [OF assms, of w now]
  have "\<exists>outcome. scan_broadcasts w raw now = [CardScanned s now, ScanResult s outcome]"
    by (auto simp: scan_broadcasts_def)
  then show ?thesis
    by (simp add: fst_processCardScan [OF assms] processManualScan_def simulateScan_def)
qed

text \<open>
  A scan without a uid: \<^verbatim>\<open>uid.toString()\<close> throws inside the \<^verbatim>\<open>try\<close> and again inside the
  \<^verbatim>\<open>catch\<close>, so the exception leaves the function and nothing is broadcast, neither the
  scan-in-progress event nor a scan result.
\<close>

lemma scan_without_uid:
  "processCardScan w UidUndefined now = (Some TypeError, w\<lparr>lastScanTime := Some now\<rparr>)"
  "scan_broadcasts w UidUndefined now = []"
  by (simp_all add: processCardScan_def scan_catch_def scan_broadcasts_def)

text \<open>
  C9 at the failing input. A \<^verbatim>\<open>manualScan\<close> command whose payload has no uid reaches the
  pipeline: the invocation throws a type error and broadcasts nothing, so it emits no
  terminal scan result. The route \<^verbatim>\<open>POST /manual-scan\<close> refuses the same input before the
  pipeline is called.
\<close>

theorem manual_scan_without_uid_broadcasts_nothing:
  "normalize_uid UidUndefined = None \<and>
   socket_manualScan cafeteria UidUndefined ''socket-1'' 2000 =
     (Some TypeError, cafeteria\<lparr>lastScanTime := Some 2000\<rparr>) \<and>
   emitted (snd (socket_manualScan cafeteria UidUndefined ''socket-1'' 2000)) = [] \<and>
   scan_broadcasts cafeteria UidUndefined 2000 = [] \<and>
   post_manual_scan cafeteria UidUndefined 2000 = (Some UidRequired, cafeteria)"
  by code_simp

text \<open>
  C10. UIDs are unique in the user collection. A scan whose UID, trimmed as the lookup
  casts it, is that of a stored person with the activity flag false broadcasts the
  terminal not-found result; and no scan at all broadcasts the access check's
  inactive-account denial.
\<close>

theorem inactive_uid_reports_not_found:
  assumes "normalize_uid raw = Some s"
    and "distinct (map uid (users w))"
    and "u \<in> set (users w)" and "uid u = trim s" and "\<not> isActive u"
  shows "scan_broadcasts w raw now = [CardScanned s now, ScanResult s UserNotFound] \<and>
         (\<forall>w' raw' now' x m.
            ScanResult x (AccessDenied ''Account is inactive'' m)
              \<notin> set (scan_broadcasts w' raw' now'))"
proof -
  have "fst (getUserByUID w s) = None"
  proof (cases "fst (getUserByUID w s)")
    case None
    then show ?thesis .
  next
    case (Some d)
    then have d: "isActive d" "uid d = trim s" "d \<in> set (users w)"
      using getUserByUID_active by blast+
    from assms(2) have inj: "inj_on uid (set (users w))" by (simp add: distinct_map)
    from d(2) assms(4) have "uid d = uid u" by simp
    with inj have "d = u" using d(3) assms(3) by (rule inj_onD)
    with d(1) assms(5) show ?thesis by simp
  qed
  from processCardScan_unresolved(1) [OF assms(1) this, of now]
  have "scan_broadcasts w raw now = [CardScanned s now, ScanResult s UserNotFound]"
    by (simp add: scan_broadcasts_def)
  then show ?thesis using no_inactive_denial by blast
qed

theorem inactive_uid_reports_not_found_witness:
  "normalize_uid (UidString ''c3d4'') = Some ''C3D4'' \<and>
   distinct (map uid (users cafeteria)) \<and> bob \<in> set (users cafeteria) \<and>
   uid bob = trim ''C3D4'' \<and> \<not> isActive bob \<and>
   scan_broadcasts cafeteria (UidString ''c3d4'') 2000 =
     [CardScanned ''C3D4'' 2000, ScanResult ''C3D4'' UserNotFound]"
proof -
  have h1: "normalize_uid (UidString ''c3d4'') = Some ''C3D4''" by code_simp
  have h2: "distinct (map uid (users cafeteria))" by code_simp
  have h3: "bob \<in> set (users cafeteria)" by (simp add: cafeteria_def)
  have h4: "uid bob = trim ''C3D4''" by code_simp
  have h5: "\<not> isActive bob" by (simp add: bob_def)
  show ?thesis
    using h1 h2 h3 h4 h5 inactive_uid_reports_not_found [OF h1 h2 h3 h4 h5, of 2000]
    by simp
qed

section \<open>Reader discovery\<close>

lemma js_includes_sublist: "js_includes hay needle \<longleftrightarrow> sublist needle hay"
  by (induction hay) (simp_all add: sublist_Cons_right)

lemma on_reader_accepts:
  "is_target_reader nm \<Longrightarrow> on_reader w nm now \<noteq> w"
proof
  assume a: "is_target_reader nm" and e: "on_reader w nm now = w"
  from e have "emitted (on_reader w nm now) = emitted w" by simp
  with a show False by (simp add: on_reader_def setupCardHandlers_def)
qed

lemma on_reader_accepted:
  "is_target_reader nm \<Longrightarrow>
   on_reader w nm now =
     w\<lparr>reader := Some nm, connected := True,
       emitted := emitted w @ [RfidConnected nm now],
       cardHandlers := cardHandlers w @ [nm]\<rparr>"
  by (simp add: on_reader_def setupCardHandlers_def)

lemma on_card_attached:
  "nm \<in> set (cardHandlers w) \<Longrightarrow> normalize_uid raw = Some s \<Longrightarrow>
   on_card w nm raw t = snd (processCardScan w raw t)"
  using fst_processCardScan [of raw s w t]
  by (simp add: on_card_def case_prod_beta)

text \<open>
  C7, as amended. A discovered reader is accepted if and only if its lower-cased name
  contains one of the fixed tokens \<^verbatim>\<open>acr\<close>, \<^verbatim>\<open>1252\<close>, \<^verbatim>\<open>nfc\<close>; the configured reader name
  plays no part in the decision. Accepting a reader stores it as the service's reader,
  marks the service connected, broadcasts the connection and attaches the card
  handlers, so that a card presented on it is processed by the scan pipeline. A reader
  that does not match leaves the service as it was, with no handlers attached to it by
  this event, and raises nothing.
\<close>

theorem reader_accepted_iff_family_token:
  "(on_reader w nm now \<noteq> w \<longleftrightarrow> is_target_reader nm) \<and>
   (is_target_reader nm \<longleftrightarrow>
      sublist ''acr'' (toLowerCase nm) \<or> sublist ''1252'' (toLowerCase nm) \<or>
      sublist ''nfc'' (toLowerCase nm)) \<and>
   (is_target_reader nm \<longrightarrow>
      on_reader w nm now =
        w\<lparr>reader := Some nm, connected := True,
          emitted := emitted w @ [RfidConnected nm now],
          cardHandlers := cardHandlers w @ [nm]\<rparr> \<and>
      nm \<in> set (cardHandlers (on_reader w nm now)) \<and>
      (\<forall>raw s t. normalize_uid raw = Some s \<longrightarrow>
         on_card (on_reader w nm now) nm raw t =
           snd (processCardScan (on_reader w nm now) raw t))) \<and>
   (\<not> is_target_reader nm \<longrightarrow> on_reader w nm now = w) \<and>
   on_reader (w\<lparr>readerName := configured\<rparr>) nm now =
     (on_reader w nm now)\<lparr>readerName := configured\<rparr>"
proof -
  have iff: "on_reader w nm now \<noteq> w \<longleftrightarrow> is_target_reader nm"
    using on_reader_accepts [of nm w now] by (auto simp: on_reader_def)
  have tokens: "is_target_reader nm \<longleftrightarrow>
      sublist ''acr'' (toLowerCase nm) \<or> sublist ''1252'' (toLowerCase nm) \<or>
      sublist ''nfc'' (toLowerCase nm)"
    by (simp only: is_target_reader_def js_includes_sublist)
  have accepted: "is_target_reader nm \<longrightarrow>
      on_reader w nm now =
        w\<lparr>reader := Some nm, connected := True,
          emitted := emitted w @ [RfidConnected nm now],
          cardHandlers := cardHandlers w @ [nm]\<rparr> \<and>
      nm \<in> set (cardHandlers (on_reader w nm now)) \<and>
      (\<forall>raw s t. normalize_uid raw = Some s \<longrightarrow>
         on_card (on_reader w nm now) nm raw t =
           snd (processCardScan (on_reader w nm now) raw t))"
  proof
    assume a: "is_target_reader nm"
    have h: "nm \<in> set (cardHandlers (on_reader w nm now))"
      by (simp add: on_reader_accepted [OF a])
    show "on_reader w nm now =
        w\<lparr>reader := Some nm, connected := True,
          emitted := emitted w @ [RfidConnected nm now],
          cardHandlers := cardHandlers w @ [nm]\<rparr> \<and>
      nm \<in> set (cardHandlers (on_reader w nm now)) \<and>
      (\<forall>raw s t. normalize_uid raw = Some s \<longrightarrow>
         on_card (on_reader w nm now) nm raw t =
           snd (processCardScan (on_reader w nm now) raw t))"
      using on_reader_accepted [OF a, of w now] h on_card_attached [OF h] by blast
  qed
  have ignored: "\<not> is_target_reader nm \<longrightarrow> on_reader w nm now = w"
    by (simp add: on_reader_def)
  have config: "on_reader (w\<lparr>readerName := configured\<rparr>) nm now =
     (on_reader w nm now)\<lparr>readerName := configured\<rparr>"
    by (simp add: on_reader_def setupCardHandlers_def)
  note parts = iff tokens accepted ignored config
  show ?thesis
    by (intro conjI) (rule parts)+
qed

theorem reader_accepted_iff_family_token_witness:
  "\<not> mockMode hardware_station \<and>
   is_target_reader ''ACS ACR1252 1S CL Reader PICC 0'' \<and>
   \<not> is_target_reader ''OMNIKEY 5022'' \<and>
   on_reader hardware_station ''ACS ACR1252 1S CL Reader PICC 0'' 2000 =
     hardware_station\<lparr>reader := Some ''ACS ACR1252 1S CL Reader PICC 0'', connected := True,
       emitted := emitted hardware_station @
         [RfidConnected ''ACS ACR1252 1S CL Reader PICC 0'' 2000],
       cardHandlers := cardHandlers hardware_station @
         [''ACS ACR1252 1S CL Reader PICC 0'']\<rparr> \<and>
   ''ACS ACR1252 1S CL Reader PICC 0''
     \<in> set (cardHandlers (on_reader hardware_station ''ACS ACR1252 1S CL Reader PICC 0'' 2000)) \<and>
   on_reader hardware_station ''OMNIKEY 5022'' 2000 = hardware_station \<and>
   cardHandlers (on_reader hardware_station ''OMNIKEY 5022'' 2000) = []"
proof -
  have m: "\<not> mockMode hardware_station" by code_simp
  have h1: "is_target_reader ''ACS ACR1252 1S CL Reader PICC 0''" by code_simp
  have h2: "\<not> is_target_reader ''OMNIKEY 5022''" by code_simp
  have c: "cardHandlers hardware_station = []" by code_simp
  show ?thesis
    using m h1 h2 c
      reader_accepted_iff_family_token
        [of hardware_station "''ACS ACR1252 1S CL Reader PICC 0''" 2000]
      reader_accepted_iff_family_token [of hardware_station "''OMNIKEY 5022''" 2000]
    by simp
qed

text \<open>
  C7 as stated fails in both directions. With the configured name \<^verbatim>\<open>ACR1252\<close>, a reader
  named \<^verbatim>\<open>ACR122U PICC Interface\<close> does not contain the configured name and is accepted,
  handlers and all; with the configured name \<^verbatim>\<open>OMNIKEY\<close>, a reader named
  \<^verbatim>\<open>OMNIKEY 5022 Smart Card Reader\<close> contains it and is ignored.
\<close>

theorem reader_match_ignores_configured_name:
  "readerName hardware_station = ''ACR1252'' \<and>
   \<not> spec_matches_configured (readerName hardware_station) ''ACR122U PICC Interface'' \<and>
   reader (on_reader hardware_station ''ACR122U PICC Interface'' 2000) =
     Some ''ACR122U PICC Interface'' \<and>
   connected (on_reader hardware_station ''ACR122U PICC Interface'' 2000) \<and>
   cardHandlers (on_reader hardware_station ''ACR122U PICC Interface'' 2000) =
     [''ACR122U PICC Interface''] \<and>
   spec_matches_configured ''OMNIKEY'' ''OMNIKEY 5022 Smart Card Reader'' \<and>
   on_reader (hardware_station\<lparr>readerName := ''OMNIKEY''\<rparr>)
       ''OMNIKEY 5022 Smart Card Reader'' 2000 =
     hardware_station\<lparr>readerName := ''OMNIKEY''\<rparr>"
  by code_simp

section \<open>Access check\<close>

lemma find_update_first:
  "(\<And>x. P x \<Longrightarrow> P (f x)) \<Longrightarrow> find P (update_first P f xs) = map_option f (find P xs)"
  by (induction xs) simp_all

lemma validateUserAccess_expired:
  assumes "isActive u" "isBlocked u" "expiresAt (blockInfo u) = Some e" "e < now"
    "\<not> storage_fails w"
  shows "fst (validateUserAccess w u now) =
           (CanAccess, u\<lparr>isBlocked := False, blockInfo := cleared_block\<rparr>)"
    and "users (snd (validateUserAccess w u now)) =
           update_first (\<lambda>d. user_id d = user_id u)
             (\<lambda>d. d\<lparr>isBlocked := False, blockInfo := cleared_block\<rparr>) (users w)"
  using assms by (simp_all add: validateUserAccess_def case_prod_beta Let_def)

lemma validateUserAccess_blocked:
  assumes "isBlocked u"
    and "expiresAt (blockInfo u) = None \<or> (\<exists>e. expiresAt (blockInfo u) = Some e \<and> now < e)"
  shows "\<exists>r m. fst (fst (validateUserAccess w u now)) = NoAccess r m \<and> r \<noteq> []"
    and "snd (validateUserAccess w u now) = w"
  using assms by (auto simp add: validateUserAccess_def case_prod_beta Let_def)

text \<open>
  C4, as amended. For every active person whose block flag is true and whose expiry is
  set and in the past, the access check, when its save goes through, grants access,
  resets the block (flag false, reason and notes empty, blocked-at, blocked-by and
  expiry null) on the caller's document and on the stored document with that id.
  For every person whose block flag is true with no expiry or an expiry in the future,
  the check denies access with a reason and changes nothing.
\<close>

theorem expired_block_of_active_user_is_cleared:
  "(isActive u \<and> isBlocked u \<and> expiresAt (blockInfo u) = Some e \<and> e < now \<and>
      \<not> storage_fails w \<longrightarrow>
      fst (validateUserAccess w u now) =
        (CanAccess, u\<lparr>isBlocked := False, blockInfo := cleared_block\<rparr>) \<and>
      find (\<lambda>d. user_id d = user_id u) (users (snd (validateUserAccess w u now))) =
        map_option (\<lambda>d. d\<lparr>isBlocked := False, blockInfo := cleared_block\<rparr>)
          (find (\<lambda>d. user_id d = user_id u) (users w))) \<and>
   (isBlocked u \<and>
      (expiresAt (blockInfo u) = None \<or> (\<exists>e'. expiresAt (blockInfo u) = Some e' \<and> now < e'))
      \<longrightarrow>
      (\<exists>r m. fst (fst (validateUserAccess w u now)) = NoAccess r m \<and> r \<noteq> []) \<and>
      snd (validateUserAccess w u now) = w)"
proof (intro conjI impI)
  assume a: "isActive u \<and> isBlocked u \<and> expiresAt (blockInfo u) = Some e \<and> e < now \<and>
      \<not> storage_fails w"
  then show "fst (validateUserAccess w u now) =
        (CanAccess, u\<lparr>isBlocked := False, blockInfo := cleared_block\<rparr>)"
    by (simp add: validateUserAccess_expired)
  from a show "find (\<lambda>d. user_id d = user_id u) (users (snd (validateUserAccess w u now))) =
        map_option (\<lambda>d. d\<lparr>isBlocked := False, blockInfo := cleared_block\<rparr>)
          (find (\<lambda>d. user_id d = user_id u) (users w))"
    by (simp add: validateUserAccess_expired find_update_first)
next
  assume b: "isBlocked u \<and>
      (expiresAt (blockInfo u) = None \<or> (\<exists>e'. expiresAt (blockInfo u) = Some e' \<and> now < e'))"
  then show "\<exists>r m. fst (fst (validateUserAccess w u now)) = NoAccess r m \<and> r \<noteq> []"
    using validateUserAccess_blocked(1) [of u now w] by blast
  from b show "snd (validateUserAccess w u now) = w"
    using validateUserAccess_blocked(2) [of u now w] by blast
qed

theorem expired_block_of_active_user_is_cleared_witness:
  "(isActive eve \<and> isBlocked eve \<and> expiresAt (blockInfo eve) = Some 500 \<and> (500::int) < 2000 \<and>
      \<not> storage_fails cafeteria) \<and>
   fst (validateUserAccess cafeteria eve 2000) =
     (CanAccess, eve\<lparr>isBlocked := False, blockInfo := cleared_block\<rparr>) \<and>
   find (\<lambda>d. user_id d = 3) (users (snd (validateUserAccess cafeteria eve 2000))) =
     Some (eve\<lparr>isBlocked := False, blockInfo := cleared_block\<rparr>) \<and>
   (isBlocked blocked_for_good \<and> expiresAt (blockInfo blocked_for_good) = None) \<and>
   fst (fst (validateUserAccess cafeteria blocked_for_good 2000)) =
     NoAccess ''Account is blocked'' ''Unpaid bill''"
proof -
  have h: "isActive eve \<and> isBlocked eve \<and> expiresAt (blockInfo eve) = Some 500 \<and>
      (500::int) < 2000 \<and> \<not> storage_fails cafeteria"
    by code_simp
  have f: "find (\<lambda>d. user_id d = user_id eve) (users cafeteria) = Some eve" by code_simp
  have i: "user_id eve = 3" by code_simp
  have b: "isBlocked blocked_for_good \<and> expiresAt (blockInfo blocked_for_good) = None"
    by code_simp
  have d: "fst (fst (validateUserAccess cafeteria blocked_for_good 2000)) =
     NoAccess ''Account is blocked'' ''Unpaid bill''"
    by code_simp
  show ?thesis
    using h f i b d
      expired_block_of_active_user_is_cleared [of eve 500 2000 cafeteria]
      expired_block_of_active_user_is_cleared [of blocked_for_good 0 2000 cafeteria]
    by simp
qed

text \<open>
  C4 as stated fails for a deactivated account: Bob is blocked with an expiry in the
  past, and the check denies him as inactive and resets nothing.
\<close>

theorem inactive_user_with_expired_block_is_denied:
  "isBlocked bob \<and> expiresAt (blockInfo bob) = Some 500 \<and> (500::int) < 2000 \<and>
   validateUserAccess cafeteria bob 2000 =
     ((NoAccess ''Account is inactive''
         ''This account has been deactivated. Please contact administration.'', bob),
      cafeteria)"
  by code_simp

section \<open>Today's reservations\<close>

lemma div_eq_window:
  fixes D :: int
  assumes "0 < D"
  shows "T div D = q \<longleftrightarrow> D * q \<le> T \<and> T < D * q + D"
proof
  assume "T div D = q"
  then have "D * q = T - T mod D" by (simp add: minus_mod_eq_mult_div)
  moreover have "0 \<le> T mod D" "T mod D < D" using assms by simp_all
  ultimately show "D * q \<le> T \<and> T < D * q + D" by linarith
next
  assume a: "D * q \<le> T \<and> T < D * q + D"
  have "T = D * q + (T - D * q)" by simp
  moreover have "0 \<le> T - D * q" "T - D * q < D" using a by linarith+
  ultimately show "T div D = q" by (rule int_div_pos_eq)
qed

lemma day_window:
  "startOfDay tz now \<le> t \<and> t \<le> endOfDay tz now \<longleftrightarrow> same_local_day tz t now"
proof -
  have D: "0 < msPerDay" by (simp add: msPerDay_def)
  have s: "startOfDay tz now = msPerDay * ((now + tz) div msPerDay) - tz"
    by (simp add: startOfDay_def minus_mod_eq_mult_div [symmetric])
  have "same_local_day tz t now \<longleftrightarrow>
      msPerDay * ((now + tz) div msPerDay) \<le> t + tz \<and>
      t + tz < msPerDay * ((now + tz) div msPerDay) + msPerDay"
    unfolding same_local_day_def by (rule div_eq_window [OF D])
  then show ?thesis by (simp add: endOfDay_def s) linarith
qed


lemma today_query_iff:
  "today_query tz now i r \<longleftrightarrow>
     studentId r = i \<and> same_local_day tz (reservationDate r) now \<and>
     status r \<in> {Pending, Confirmed, Prepared}"
  using day_window [of tz now "reservationDate r"] by (auto simp: today_query_def)

lemma getTodayReservations_result:
  "fst (getTodayReservations w i now) =
     (if storage_fails w then []
      else sort_key (\<lambda>r. (mealType_name (mealType r), reservationDate r))
             (filter (today_query (tzOffset w) now i) (reservations w)))"
  by (simp add: getTodayReservations_def case_prod_beta)

text \<open>
  C8. When the storage read goes through, the result holds exactly the person's
  reservations dated on the current local calendar day whose status is pending,
  confirmed or prepared, ordered by meal slot (the order of the stored slot names) and
  then by date; when the read fails, the result is the empty list.
\<close>

theorem today_reservations_filtered_and_ordered:
  "(\<not> storage_fails w \<longrightarrow>
      mset (fst (getTodayReservations w i now)) =
        mset (filter (\<lambda>r. studentId r = i \<and>
                          same_local_day (tzOffset w) (reservationDate r) now \<and>
                          status r \<in> {Pending, Confirmed, Prepared})
                (reservations w)) \<and>
      sorted (map (\<lambda>r. (mealType_name (mealType r), reservationDate r))
                (fst (getTodayReservations w i now)))) \<and>
   (storage_fails w \<longrightarrow> fst (getTodayReservations w i now) = [])"
proof -
  have "filter (today_query (tzOffset w) now i) (reservations w) =
        filter (\<lambda>r. studentId r = i \<and>
                          same_local_day (tzOffset w) (reservationDate r) now \<and>
                          status r \<in> {Pending, Confirmed, Prepared})
                (reservations w)"
    by (rule filter_cong) (simp_all add: today_query_iff)
  then show ?thesis
    by (simp add: getTodayReservations_result)
qed

theorem today_reservations_filtered_and_ordered_witness:
  "\<not> storage_fails busy_day \<and>
   mset (fst (getTodayReservations busy_day 1 2000)) =
     mset (filter (\<lambda>r. studentId r = 1 \<and>
                       same_local_day (tzOffset busy_day) (reservationDate r) 2000 \<and>
                       status r \<in> {Pending, Confirmed, Prepared})
             (reservations busy_day)) \<and>
   sorted (map (\<lambda>r. (mealType_name (mealType r), reservationDate r))
             (fst (getTodayReservations busy_day 1 2000))) \<and>
   map reservation_id (fst (getTodayReservations busy_day 1 2000)) = [103, 107, 108, 102, 101] \<and>
   storage_fails (busy_day\<lparr>db_faults := [True]\<rparr>) \<and>
   fst (getTodayReservations (busy_day\<lparr>db_faults := [True]\<rparr>) 1 2000) = []"
proof -
  have h1: "\<not> storage_fails busy_day" by code_simp
  have h2: "storage_fails (busy_day\<lparr>db_faults := [True]\<rparr>)" by code_simp
  have e: "map reservation_id (fst (getTodayReservations busy_day 1 2000)) =
     [103, 107, 108, 102, 101]"
    by code_simp
  show ?thesis
    using h1 h2 e
      today_reservations_filtered_and_ordered [of busy_day 1 2000]
      today_reservations_filtered_and_ordered [of "busy_day\<lparr>db_faults := [True]\<rparr>" 1 2000]
    by simp
qed

section \<open>Purchase ledger: the route checks, the socket command does not\<close>

lemma calculateTotal_foldl:
  "foldl (\<lambda>total item. total + price item * item_quantity item) a its =
     a + sum_list (map (\<lambda>it. price it * item_quantity it) its)"
  by (induction its arbitrary: a) simp_all

lemma calculateTotal_sum_list:
  "calculateTotal its = sum_list (map (\<lambda>it. price it * item_quantity it) its)"
  by (simp add: calculateTotal_def calculateTotal_foldl)

lemma validatePurchaseItems_fields [simp]:
  "purchases (snd (validatePurchaseItems w its)) = purchases w"
  "users (snd (validatePurchaseItems w its)) = users w"
  by (induction its arbitrary: w)
     (simp_all add: case_prod_beta Let_def split: option.splits)


lemma completePurchase_fields [simp]:
  "reservations (snd (completePurchase w pd now)) = reservations w"
  "foods (snd (completePurchase w pd now)) = foods w"
  "stationId (snd (completePurchase w pd now)) = stationId w"
  "emitted (snd (completePurchase w pd now)) = emitted w"
  by (simp_all add: completePurchase_def Let_def case_prod_beta split: option.splits)


lemma completePurchase_reliable [simp]:
  "db_faults w = [] \<Longrightarrow> db_faults (snd (completePurchase w pd now)) = []"
  by (simp add: completePurchase_def Let_def case_prod_beta split: option.splits)

lemma post_complete_rejects_total_mismatch:
  assumes "\<bar>calculateTotal (pd_items body) - pd_totalAmount body\<bar> > 1 / 100"
  shows "isl (fst (post_complete w body now)) \<and>
         purchases (snd (post_complete w body now)) = purchases w"
proof (cases "validatePurchaseItems w (pd_items body)")
  case (Pair e w1)
  have "purchases w1 = purchases w"
    using validatePurchaseItems_fields(1) [of w "pd_items body"] Pair by simp
  with Pair assms show ?thesis
    by (simp add: post_complete_def split: option.splits)
qed

lemma post_complete_rejects_underpaid_cash:
  assumes "pd_paymentMethod body = Some Cash"
    and "pd_paidAmount body = Some paid" and "paid < pd_totalAmount body"
  shows "isl (fst (post_complete w body now)) \<and>
         purchases (snd (post_complete w body now)) = purchases w"
proof (cases "validatePurchaseItems w (pd_items body)")
  case (Pair e w1)
  have "purchases w1 = purchases w"
    using validatePurchaseItems_fields(1) [of w "pd_items body"] Pair by simp
  with Pair assms show ?thesis
    by (simp add: post_complete_def split: option.splits)
qed


section \<open>Confirmation\<close>

lemma new_purchase_for_reservation:
  "stationId w = stationId w0 \<Longrightarrow>
   new_purchase w (reservation_purchase_data w0 r s f now) (user_id s) now
     (PaymentPending, None, None, None, []) =
   direct_purchase (reservation_purchase_data w0 r s f now) (user_id s) now"
  by (simp add: new_purchase_def direct_purchase_def reservation_purchase_data_def)

lemma purchase_valid_for_reservation:
  "purchase_valid (direct_purchase (reservation_purchase_data w0 r s f now) (user_id s) now) \<longleftrightarrow>
     trim (uid s) \<noteq> [] \<and> trim (name s) \<noteq> [] \<and>
     user_category s \<in> set [[], ''staff'', ''student''] \<and>
     trim (food_name f) \<noteq> [] \<and> 0 \<le> reservation_cost r \<and> 1 \<le> quantity r"
  by (auto simp add: purchase_valid_def direct_purchase_def reservation_purchase_data_def
      item_valid_def cast_item_def)

lemma payment_branch_for_reservation:
  "payment_branch (reservation_purchase_data w0 r s f now) t =
     Some (PaymentPending, None, None, None, [])"
  by (simp add: payment_branch_def reservation_purchase_data_def)

lemma completePurchase_for_reservation:
  assumes "db_faults w = []" and "stationId w = stationId w0"
  shows "fst (completePurchase w (reservation_purchase_data w0 r s f now) now) =
     (if purchase_valid (direct_purchase (reservation_purchase_data w0 r s f now) (user_id s) now)
      then Inr (purchase_response (reservation_purchase_data w0 r s f now)
                  (direct_purchase (reservation_purchase_data w0 r s f now) (user_id s) now))
      else Inl ValidationError)"
    and "purchases (snd (completePurchase w (reservation_purchase_data w0 r s f now) now)) =
     (if purchase_valid (direct_purchase (reservation_purchase_data w0 r s f now) (user_id s) now)
      then purchases w @
         [direct_purchase (reservation_purchase_data w0 r s f now) (user_id s) now]
      else purchases w)"
proof -
  have u: "pd_userId (reservation_purchase_data w0 r s f now) = Some (user_id s)"
    and i: "pd_items (reservation_purchase_data w0 r s f now) \<noteq> []"
    by (simp_all add: reservation_purchase_data_def)
  show "fst (completePurchase w (reservation_purchase_data w0 r s f now) now) =
     (if purchase_valid (direct_purchase (reservation_purchase_data w0 r s f now) (user_id s) now)
      then Inr (purchase_response (reservation_purchase_data w0 r s f now)
                  (direct_purchase (reservation_purchase_data w0 r s f now) (user_id s) now))
      else Inl ValidationError)"
    using assms
    by (simp add: completePurchase_def u i payment_branch_for_reservation
        new_purchase_for_reservation case_prod_beta Let_def)
  show "purchases (snd (completePurchase w (reservation_purchase_data w0 r s f now) now)) =
     (if purchase_valid (direct_purchase (reservation_purchase_data w0 r s f now) (user_id s) now)
      then purchases w @
         [direct_purchase (reservation_purchase_data w0 r s f now) (user_id s) now]
      else purchases w)"
    using assms
    by (simp add: completePurchase_def u i payment_branch_for_reservation
        new_purchase_for_reservation case_prod_beta Let_def)
qed


lemma confirmReservation_served_already:
  assumes "db_faults w = []"
    and "find (\<lambda>d. reservation_id d = rid) (reservations w) = Some r"
    and "status r = Served"
  shows "fst (confirmReservation w rid ps now) = Inl AlreadyServed"
    and "purchases (snd (confirmReservation w rid ps now)) = purchases w"
    and "reservations (snd (confirmReservation w rid ps now)) = reservations w"
  using assms by (simp_all add: confirmReservation_def case_prod_beta)

lemma billable_iff:
  "billable w r \<longleftrightarrow>
     (\<exists>s f. find (\<lambda>u. user_id u = studentId r) (users w) = Some s \<and>
            find (\<lambda>f. food_id f = foodId r) (foods w) = Some f \<and>
            purchase_valid
              (direct_purchase (reservation_purchase_data w0 r s f now) (user_id s) now))"
  by (auto simp add: billable_def purchase_valid_for_reservation split: option.splits)

lemma confirmReservation_marks:
  assumes "db_faults w = []"
    and "find (\<lambda>d. reservation_id d = rid) (reservations w) = Some r"
    and "status r \<noteq> Served" and "status r \<noteq> Cancelled"
  shows "reservations (snd (confirmReservation w rid ps now)) =
           update_first (\<lambda>d. reservation_id d = rid) (mark_served (stationId w) now)
             (reservations w)"
    and "db_faults (snd (confirmReservation w rid ps now)) = []"
  using assms
  by (simp_all add: confirmReservation_def case_prod_beta Let_def
      split: option.splits sum.splits)


lemma reservation_purchase_data_station:
  "stationId w' = stationId w \<Longrightarrow>
   reservation_purchase_data w' r s f now = reservation_purchase_data w r s f now"
  by (simp add: reservation_purchase_data_def)

lemma confirmReservation_billed:
  assumes "db_faults w = []"
    and "find (\<lambda>d. reservation_id d = rid) (reservations w) = Some r"
    and "status r \<noteq> Served" and "status r \<noteq> Cancelled"
    and "find (\<lambda>u. user_id u = studentId r) (users w) = Some s"
    and "find (\<lambda>f. food_id f = foodId r) (foods w) = Some f"
    and "purchase_valid (direct_purchase (reservation_purchase_data w r s f now) (user_id s) now)"
  shows "fst (confirmReservation w rid ps now) =
           Inr \<lparr>confirmed_reservation = mark_served (stationId w) now r,
                confirmed_purchase =
                  direct_purchase (reservation_purchase_data w r s f now) (user_id s) now\<rparr>"
    and "purchases (snd (confirmReservation w rid ps now)) =
           purchases w @
             [direct_purchase (reservation_purchase_data w r s f now) (user_id s) now]"
proof -
  let ?w3 = "(snd (db_call (ReservationSave rid) (snd (db_call (ReservationFindById rid) w))))
      \<lparr>reservations := update_first (\<lambda>d. reservation_id d = rid)
          (mark_served (stationId w) now) (reservations w)\<rparr>"
  have st: "stationId ?w3 = stationId w" and rel: "db_faults ?w3 = []"
    and pu: "purchases ?w3 = purchases w"
    using assms(1) by simp_all
  have pd: "reservation_purchase_data ?w3 r s f now = reservation_purchase_data w r s f now"
    by (rule reservation_purchase_data_station [OF st])
  note cp = completePurchase_for_reservation [OF rel refl, of r s f now, unfolded pd]
  show "fst (confirmReservation w rid ps now) =
           Inr \<lparr>confirmed_reservation = mark_served (stationId w) now r,
                confirmed_purchase =
                  direct_purchase (reservation_purchase_data w r s f now) (user_id s) now\<rparr>"
    using assms cp
    by (simp add: confirmReservation_def case_prod_beta Let_def pd purchase_response_def)
  show "purchases (snd (confirmReservation w rid ps now)) =
           purchases w @
             [direct_purchase (reservation_purchase_data w r s f now) (user_id s) now]"
    using assms cp
    by (simp add: confirmReservation_def case_prod_beta Let_def pd)
qed

lemma confirmReservation_unbilled:
  assumes "db_faults w = []"
    and "find (\<lambda>d. reservation_id d = rid) (reservations w) = Some r"
    and "status r \<noteq> Served" and "status r \<noteq> Cancelled"
    and "\<not> billable w r"
  shows "\<exists>e. fst (confirmReservation w rid ps now) = Inl (ServedButPurchaseFailed e)"
    and "purchases (snd (confirmReservation w rid ps now)) = purchases w"
proof -
  let ?w3 = "(snd (db_call (ReservationSave rid) (snd (db_call (ReservationFindById rid) w))))
      \<lparr>reservations := update_first (\<lambda>d. reservation_id d = rid)
          (mark_served (stationId w) now) (reservations w)\<rparr>"
  have st: "stationId ?w3 = stationId w" and rel: "db_faults ?w3 = []"
    using assms(1) by simp_all
  have pd: "\<And>s f. reservation_purchase_data ?w3 r s f now = reservation_purchase_data w r s f now"
    by (rule reservation_purchase_data_station [OF st])
  note cp = completePurchase_for_reservation [OF rel refl, of r _ _ now, unfolded pd]
  note nb = assms(5) [unfolded billable_iff [of w r w now]]
  show "\<exists>e. fst (confirmReservation w rid ps now) = Inl (ServedButPurchaseFailed e)"
    using assms(1-4) nb cp
    by (auto simp add: confirmReservation_def case_prod_beta Let_def pd
        split: option.splits)
  show "purchases (snd (confirmReservation w rid ps now)) = purchases w"
    using assms(1-4) nb cp
    by (auto simp add: confirmReservation_def case_prod_beta Let_def pd
        split: option.splits)
qed


lemma reservation_id_mark_served [simp]:
  "reservation_id (mark_served st now r) = reservation_id r"
  "status (mark_served st now r) = Served"
  by (simp_all add: mark_served_def)

text \<open>
  C1, as amended. Storage works, and the reservation with the given id exists with a
  status that is neither served nor cancelled. The first call saves it as served. It
  returns a result exactly when the purchase built for the reservation is billable
  (student and food resolve and the purchase passes its schema); it then has created
  exactly one purchase, for the reservation's student, food and quantity, at the
  reservation's cost, with payment status pending. Otherwise it fails as
  served-but-unbilled and creates no purchase. The cost is the estimated cost when no
  actual cost is recorded and the actual cost when a non-zero one is recorded. The second
  call fails with the already-served error and changes neither the purchases nor the
  reservations.
\<close>

theorem confirm_twice_bills_at_most_once:
  assumes "db_faults w = []"
    and "find (\<lambda>d. reservation_id d = rid) (reservations w) = Some r"
    and "status r \<noteq> Served" and "status r \<noteq> Cancelled"
  shows
    "find (\<lambda>d. reservation_id d = rid) (reservations (snd (confirmReservation w rid ps now))) =
       Some (mark_served (stationId w) now r) \<and>
     status (mark_served (stationId w) now r) = Served \<and>
     (billable w r \<longleftrightarrow> \<not> isl (fst (confirmReservation w rid ps now))) \<and>
     (\<forall>res. fst (confirmReservation w rid ps now) = Inr res \<longrightarrow>
        purchases (snd (confirmReservation w rid ps now)) =
          purchases w @ [confirmed_purchase res] \<and>
        confirmed_reservation res = mark_served (stationId w) now r \<and>
        userId (confirmed_purchase res) = studentId r \<and>
        map item_foodId (items (confirmed_purchase res)) = [foodId r] \<and>
        map item_quantity (items (confirmed_purchase res)) = [quantity r] \<and>
        map price (items (confirmed_purchase res)) = [reservation_cost r] \<and>
        totalAmount (confirmed_purchase res) = reservation_cost r * quantity r \<and>
        paymentStatus (confirmed_purchase res) = PaymentPending) \<and>
     (\<forall>e. fst (confirmReservation w rid ps now) = Inl e \<longrightarrow>
        purchases (snd (confirmReservation w rid ps now)) = purchases w \<and>
        (\<exists>e'. e = ServedButPurchaseFailed e')) \<and>
     (actualCost r = None \<longrightarrow> reservation_cost r = estimatedCost r) \<and>
     (\<forall>c. actualCost r = Some c \<and> c \<noteq> 0 \<longrightarrow> reservation_cost r = c) \<and>
     fst (confirmReservation (snd (confirmReservation w rid ps now)) rid ps later) =
       Inl AlreadyServed \<and>
     purchases (snd (confirmReservation (snd (confirmReservation w rid ps now)) rid ps later)) =
       purchases (snd (confirmReservation w rid ps now)) \<and>
     reservations (snd (confirmReservation (snd (confirmReservation w rid ps now)) rid ps later)) =
       reservations (snd (confirmReservation w rid ps now))"
proof -
  let ?first = "confirmReservation w rid ps now"
  note marks = confirmReservation_marks [OF assms, of ps now]
  have served: "find (\<lambda>d. reservation_id d = rid) (reservations (snd ?first)) =
       Some (mark_served (stationId w) now r)"
    by (simp add: marks(1) find_update_first assms(2))
  note again = confirmReservation_served_already
    [OF marks(2) served reservation_id_mark_served(2), of ps later]
  have cost: "(actualCost r = None \<longrightarrow> reservation_cost r = estimatedCost r) \<and>
     (\<forall>c. actualCost r = Some c \<and> c \<noteq> 0 \<longrightarrow> reservation_cost r = c)"
    by (simp add: reservation_cost_def)
  have outcome: "(billable w r \<longleftrightarrow> \<not> isl (fst ?first)) \<and>
     (\<forall>res. fst ?first = Inr res \<longrightarrow>
        purchases (snd ?first) = purchases w @ [confirmed_purchase res] \<and>
        confirmed_reservation res = mark_served (stationId w) now r \<and>
        userId (confirmed_purchase res) = studentId r \<and>
        map item_foodId (items (confirmed_purchase res)) = [foodId r] \<and>
        map item_quantity (items (confirmed_purchase res)) = [quantity r] \<and>
        map price (items (confirmed_purchase res)) = [reservation_cost r] \<and>
        totalAmount (confirmed_purchase res) = reservation_cost r * quantity r \<and>
        paymentStatus (confirmed_purchase res) = PaymentPending) \<and>
     (\<forall>e. fst ?first = Inl e \<longrightarrow>
        purchases (snd ?first) = purchases w \<and> (\<exists>e'. e = ServedButPurchaseFailed e'))"
  proof (cases "billable w r")
    case True
    then obtain s f where s: "find (\<lambda>u. user_id u = studentId r) (users w) = Some s"
      and f: "find (\<lambda>f. food_id f = foodId r) (foods w) = Some f"
      and v: "purchase_valid
                (direct_purchase (reservation_purchase_data w r s f now) (user_id s) now)"
      unfolding billable_iff [of w r w now] by blast
    from s have sid: "user_id s = studentId r" by (auto simp: find_Some_iff)
    from f have fid: "food_id f = foodId r" by (auto simp: find_Some_iff)
    note b = confirmReservation_billed [OF assms s f v, of ps]
    let ?p = "direct_purchase (reservation_purchase_data w r s f now) (user_id s) now"
    have p: "userId ?p = studentId r"
      "map item_foodId (items ?p) = [foodId r]"
      "map item_quantity (items ?p) = [quantity r]"
      "map price (items ?p) = [reservation_cost r]"
      "totalAmount ?p = reservation_cost r * quantity r"
      "paymentStatus ?p = PaymentPending"
      by (simp_all add: direct_purchase_def reservation_purchase_data_def cast_item_def sid fid)
    show ?thesis
      using True by (simp add: b p)
  next
    case False
    note u = confirmReservation_unbilled [OF assms False, of ps now]
    from u(1) obtain e where "fst ?first = Inl (ServedButPurchaseFailed e)" by blast
    with False u(2) show ?thesis by simp
  qed
  note parts = served reservation_id_mark_served(2) [of "stationId w" now r]
    outcome [THEN conjunct1] outcome [THEN conjunct2, THEN conjunct1]
    outcome [THEN conjunct2, THEN conjunct2]
    cost [THEN conjunct1] cost [THEN conjunct2] again
  show ?thesis
    by (intro conjI) (rule parts)+
qed


theorem confirm_twice_bills_at_most_once_witness:
  "db_faults cafeteria = [] \<and>
   find (\<lambda>d. reservation_id d = 100) (reservations cafeteria) = Some lunch_for_ada \<and>
   status lunch_for_ada \<noteq> Served \<and> status lunch_for_ada \<noteq> Cancelled \<and>
   billable cafeteria lunch_for_ada \<and> actualCost lunch_for_ada = None \<and>
   map status (reservations (snd (confirmReservation cafeteria 100 True 2000))) = [Served] \<and>
   map totalAmount (purchases (snd (confirmReservation cafeteria 100 True 2000))) = [7] \<and>
   map paymentStatus (purchases (snd (confirmReservation cafeteria 100 True 2000))) =
     [PaymentPending] \<and>
   fst (confirmReservation (snd (confirmReservation cafeteria 100 True 2000)) 100 True 3000) =
     Inl AlreadyServed \<and>
   purchases (snd (confirmReservation (snd (confirmReservation cafeteria 100 True 2000))
       100 True 3000)) =
     purchases (snd (confirmReservation cafeteria 100 True 2000))"
proof -
  have h1: "db_faults cafeteria = []" by code_simp
  have h2: "find (\<lambda>d. reservation_id d = 100) (reservations cafeteria) = Some lunch_for_ada"
    by code_simp
  have h3: "status lunch_for_ada \<noteq> Served" by code_simp
  have h4: "status lunch_for_ada \<noteq> Cancelled" by code_simp
  have b: "billable cafeteria lunch_for_ada \<and> actualCost lunch_for_ada = None" by code_simp
  have e: "map status (reservations (snd (confirmReservation cafeteria 100 True 2000))) = [Served] \<and>
   map totalAmount (purchases (snd (confirmReservation cafeteria 100 True 2000))) = [7] \<and>
   map paymentStatus (purchases (snd (confirmReservation cafeteria 100 True 2000))) =
     [PaymentPending]"
    by code_simp
  show ?thesis
    using h1 h2 h3 h4 b e
      confirm_twice_bills_at_most_once [OF h1 h2 h3 h4, of True 2000 3000]
    by simp
qed

text \<open>
  C1 as stated fails twice. A pending reservation whose recorded actual cost is negative
  is saved as served, and then its purchase is refused by the purchase schema: the first
  call fails and no purchase exists. A reservation whose recorded actual cost is 0 is
  billed at the estimated cost: two portions at an estimate of 3.50 give a total of 7.
\<close>

theorem confirm_can_serve_without_billing_or_bill_the_estimate:
  "status lunch_for_ada = Pending \<and>
   fst (confirmReservation negative_lunch 100 True 2000) =
     Inl (ServedButPurchaseFailed ValidationError) \<and>
   map status (reservations (snd (confirmReservation negative_lunch 100 True 2000))) = [Served] \<and>
   purchases (snd (confirmReservation negative_lunch 100 True 2000)) = [] \<and>
   map actualCost (reservations comped_lunch) = [Some 0] \<and>
   map totalAmount (purchases (snd (confirmReservation comped_lunch 100 True 2000))) = [7]"
  by code_simp

text \<open>
  C2 at the failing input. A cash purchase of 5.00 with 3.00 tendered is refused by the
  route with the insufficient-cash error and nothing is persisted; the same payload sent
  as the socket command is persisted as paid, with 3.00 tendered and no change.
\<close>

theorem socket_persists_underpaid_cash_purchase:
  "pd_paymentMethod underpaid_cash = Some Cash \<and>
   pd_paidAmount underpaid_cash = Some 3 \<and> pd_totalAmount underpaid_cash = 5 \<and>
   fst (post_complete cafeteria underpaid_cash 2000) = Inl InsufficientCashAmount \<and>
   purchases (snd (post_complete cafeteria underpaid_cash 2000)) = [] \<and>
   \<not> isl (fst (socket_completePurchase cafeteria underpaid_cash 2000)) \<and>
   map paymentStatus (purchases (snd (socket_completePurchase cafeteria underpaid_cash 2000))) =
     [Paid] \<and>
   map cashAmount (purchases (snd (socket_completePurchase cafeteria underpaid_cash 2000))) =
     [Some 3] \<and>
   map change (purchases (snd (socket_completePurchase cafeteria underpaid_cash 2000))) =
     [None] \<and>
   map totalAmount (purchases (snd (socket_completePurchase cafeteria underpaid_cash 2000))) =
     [5]"
  by code_simp

text \<open>
  C3 at the failing input. Two soups at 2.50 make 5.00; submitted with a total of 1.00,
  the purchase is refused by the route with the total-mismatch error and nothing is
  persisted; the same payload sent as the socket command is persisted with a total of
  1.00.
\<close>

theorem socket_persists_purchase_with_wrong_total:
  "calculateTotal (pd_items wrong_total) = 5 \<and> pd_totalAmount wrong_total = 1 \<and>
   fst (post_complete cafeteria wrong_total 2000) = Inl TotalAmountMismatch \<and>
   purchases (snd (post_complete cafeteria wrong_total 2000)) = [] \<and>
   \<not> isl (fst (socket_completePurchase cafeteria wrong_total 2000)) \<and>
   map totalAmount (purchases (snd (socket_completePurchase cafeteria wrong_total 2000))) = [1] \<and>
   map (map price) (map items (purchases (snd (socket_completePurchase cafeteria wrong_total 2000)))) =
     [[5 / 2]]"
  by code_simp


end
